theory Spec2Isabelle
  imports Main "HOL-Library.AList"
begin

section \<open>Reference matcher: \<open>validateString\<close> and its regular expression\<close>

text \<open>
  The source compiles the pattern
  \<^verbatim>\<open>\$\([_a-zA-Z0-9.-]+(\.[_a-zA-Z0-9.-]+)*(\[([0-9]+|\*)\])?\)\<close>
  with Go's \<^verbatim>\<open>regexp\<close> package and calls \<^verbatim>\<open>FindAllString(value, -1)\<close>.
  The pattern is kept as a value of a small regular-expression type, and the library
  call is a backtracking matcher with Go's preference order (leftmost match, greedy
  repetition, first alternative first).
\<close>

datatype regex =
    Lit char
  | Cls "(char \<times> char) list"
  | Seq regex regex
  | Alt regex regex
  | Star regex
  | Opt regex

definition inClass :: "(char \<times> char) list \<Rightarrow> char \<Rightarrow> bool" where
  "inClass rs c =
     list_ex (\<lambda>(lo, hi). (of_char lo :: nat) \<le> of_char c \<and> (of_char c :: nat) \<le> of_char hi) rs"

text \<open>
  \<open>ends r s\<close> lists, most preferred first, what is left of \<open>s\<close> after each way of
  matching \<open>r\<close> at the start of \<open>s\<close>. An iteration of a starred expression that
  consumes nothing is dropped, as the library does.
\<close>

function ends :: "regex \<Rightarrow> string \<Rightarrow> string list" where
  "ends (Lit c) s = (case s of [] \<Rightarrow> [] | x # xs \<Rightarrow> if x = c then [xs] else [])"
| "ends (Cls rs) s = (case s of [] \<Rightarrow> [] | x # xs \<Rightarrow> if inClass rs x then [xs] else [])"
| "ends (Seq r1 r2) s = concat (map (ends r2) (ends r1 s))"
| "ends (Alt r1 r2) s = ends r1 s @ ends r2 s"
| "ends (Star r) s =
     concat (map (ends (Star r)) (filter (\<lambda>t. length t < length s) (ends r s))) @ [s]"
| "ends (Opt r) s = ends r s @ [s]"
  by pat_completeness auto
termination
  by (relation "measure size <*lex*> measure length") auto

definition plus :: "regex \<Rightarrow> regex" where
  "plus r = Seq r (Star r)"

definition matchAt :: "regex \<Rightarrow> string \<Rightarrow> string option" where
  "matchAt r s = (case ends r s of [] \<Rightarrow> None | t # _ \<Rightarrow> Some t)"

text \<open>
  The scan of \<^verbatim>\<open>Regexp.allMatches\<close>: the leftmost match from the current position is
  taken and the scan goes on behind it; an empty match right behind the previous match
  (\<open>adj\<close>) is not delivered, and after an empty match the scan moves one character on.
\<close>

function findAll :: "regex \<Rightarrow> string \<Rightarrow> bool \<Rightarrow> string list" where
  "findAll r s adj =
     (case matchAt r s of
        None \<Rightarrow> (case s of [] \<Rightarrow> [] | _ # xs \<Rightarrow> findAll r xs False)
      | Some t \<Rightarrow>
          if length t < length s
          then take (length s - length t) s # findAll r t True
          else (if adj then [] else [[]]) @
               (case s of [] \<Rightarrow> [] | _ # xs \<Rightarrow> findAll r xs False))"
  by pat_completeness auto
termination
  by (relation "measure (\<lambda>(r, s, adj). length s)") auto

text \<open>A Go slice is \<open>None\<close> when it is nil. \<^verbatim>\<open>FindAllString\<close> returns nil when
  nothing matches.\<close>

definition FindAllString :: "regex \<Rightarrow> string \<Rightarrow> string list option" where
  "FindAllString r s = (case findAll r s False of [] \<Rightarrow> None | m # ms \<Rightarrow> Some (m # ms))"

definition nameChars :: regex where
  "nameChars = Cls [(CHR ''_'', CHR ''_''), (CHR ''a'', CHR ''z''), (CHR ''A'', CHR ''Z''),
                    (CHR ''0'', CHR ''9''), (CHR ''.'', CHR ''.''), (CHR ''-'', CHR ''-'')]"

definition digitChars :: regex where
  "digitChars = Cls [(CHR ''0'', CHR ''9'')]"

definition variableSubstitutionFormat :: regex where
  "variableSubstitutionFormat =
     Seq (Lit (CHR ''$'')) (Seq (Lit (CHR ''(''))
       (Seq (plus nameChars)
         (Seq (Star (Seq (Lit (CHR ''.'')) (plus nameChars)))
           (Seq (Opt (Seq (Lit (CHR ''[''))
                       (Seq (Alt (plus digitChars) (Lit (CHR ''*''))) (Lit (CHR '']'')))))
                (Lit (CHR '')''))))))"

definition VariableSubstitutionRegex :: regex where
  "VariableSubstitutionRegex = variableSubstitutionFormat"

definition TrimPrefix :: "string \<Rightarrow> string \<Rightarrow> string" where
  "TrimPrefix s p = (if take (length p) s = p then drop (length p) s else s)"

definition TrimSuffix :: "string \<Rightarrow> string \<Rightarrow> string" where
  "TrimSuffix s p =
     (if length p \<le> length s \<and> drop (length s - length p) s = p
      then take (length s - length p) s else s)"

definition stripVarSubExpression :: "string \<Rightarrow> string" where
  "stripVarSubExpression expression = TrimSuffix (TrimPrefix expression ''$('') '')''"

text \<open>Go's \<^verbatim>\<open>append\<close> of one element: the result is never nil.\<close>

definition goAppend :: "'a list option \<Rightarrow> 'a \<Rightarrow> 'a list option" where
  "goAppend sl x = Some ((case sl of None \<Rightarrow> [] | Some xs \<Rightarrow> xs) @ [x])"

definition validateString :: "string \<Rightarrow> string list option" where
  "validateString v =
     (case FindAllString VariableSubstitutionRegex v of
        None \<Rightarrow> None
      | Some expressions \<Rightarrow>
          fold (\<lambda>expression result. goAppend result (stripVarSubExpression expression))
               expressions None)"

text \<open>
  What it means for a text to contain a reference, independently of the matcher: the
  words of a regular expression, and a text one of whose substrings is a word of the
  pattern.
\<close>

inductive_set star :: "string set \<Rightarrow> string set" for A :: "string set" where
  star_empty: "[] \<in> star A"
| star_more: "u \<in> A \<Longrightarrow> v \<in> star A \<Longrightarrow> u @ v \<in> star A"

fun lang :: "regex \<Rightarrow> string set" where
  "lang (Lit c) = {[c]}"
| "lang (Cls rs) = {[x] | x. inClass rs x}"
| "lang (Seq r1 r2) = {u @ v | u v. u \<in> lang r1 \<and> v \<in> lang r2}"
| "lang (Alt r1 r2) = lang r1 \<union> lang r2"
| "lang (Star r) = star (lang r)"
| "lang (Opt r) = insert [] (lang r)"

definition containsReference :: "string \<Rightarrow> bool" where
  "containsReference v = (\<exists>p w q. v = p @ w @ q \<and> w \<in> lang VariableSubstitutionRegex)"


section \<open>Pod assembly: the data \<open>Build\<close> reads and writes\<close>

text \<open>
  A \<^verbatim>\<open>resource.Quantity\<close> is its value in milli-units, and \<^verbatim>\<open>Cmp\<close> is the order of
  \<open>int\<close>. A \<^verbatim>\<open>corev1.ResourceList\<close> (a Go map that the code ranges over) is an
  association list: \<open>qty\<close> is the map read, which gives the zero quantity for an absent
  key, and \<open>AList.update\<close> is the assignment. Maps that are only read by key and
  assigned to (annotations, labels) are HOL maps.
\<close>

type_synonym ResourceName = string
type_synonym Quantity = int
type_synonym ResourceList = "(ResourceName \<times> Quantity) list"

definition qty :: "ResourceList \<Rightarrow> ResourceName \<Rightarrow> Quantity" where
  "qty m k = (case map_of m k of None \<Rightarrow> 0 | Some v \<Rightarrow> v)"

datatype error =
    Failed string
  | NilMapAssignment

record EnvVar =
  EnvName :: string
  EnvValue :: string

record VolumeMount =
  MountName :: string
  MountPath :: string

datatype VolumeSource = EmptyDir | OtherSource string

record Volume =
  VolumeName :: string
  VolumeSource :: VolumeSource

record ResourceRequirements =
  Limits :: ResourceList
  Requests :: ResourceList

record Container =
  Name :: string
  Image :: string
  Command :: "string list"
  Args :: "string list"
  WorkingDir :: string
  Env :: "EnvVar list"
  Resources :: ResourceRequirements
  VolumeMounts :: "VolumeMount list"

record Step = Container +
  Script :: string
  OnError :: string
  Timeout :: "nat option"

record Sidecar = Container +
  SidecarScript :: string

datatype LimitType = LimitTypePod | LimitTypeContainer | LimitTypePersistentVolumeClaim

record LimitRangeItem =
  lriType :: LimitType
  lriMax :: "ResourceList option"
  lriMin :: "ResourceList option"

record LimitRange =
  lrName :: string
  lrLimits :: "LimitRangeItem list"

record LabelSelector =
  lsMatchLabels :: "string \<rightharpoonup> string"
  lsMatchExpressions :: "string list"

record PodAffinityTerm =
  patLabelSelector :: "LabelSelector option"
  patNamespaces :: "string list"
  patTopologyKey :: string

record PodAffinity =
  paRequiredDuringSchedulingIgnoredDuringExecution :: "PodAffinityTerm list"
  paPreferredDuringSchedulingIgnoredDuringExecution :: "string list"

record Affinity =
  affNodeAffinity :: "string option"
  affPodAffinity :: "PodAffinity option"
  affPodAntiAffinity :: "string option"

record PodTemplate =
  ptNodeSelector :: "string \<rightharpoonup> string"
  ptTolerations :: "string list"
  ptAffinity :: "Affinity option"
  ptSecurityContext :: "string option"
  ptVolumes :: "Volume list"
  ptRuntimeClassName :: "string option"
  ptAutomountServiceAccountToken :: "bool option"
  ptDNSPolicy :: "string option"
  ptDNSConfig :: "string option"
  ptEnableServiceLinks :: "bool option"
  ptPriorityClassName :: "string option"
  ptSchedulerName :: string
  ptImagePullSecrets :: "string list"
  ptHostAliases :: "string list"
  ptHostNetwork :: bool

record TaskRun =
  trName :: string
  trNamespace :: string
  trUID :: string
  trAnnotations :: "(string \<rightharpoonup> string) option"
  trLabels :: "string \<rightharpoonup> string"
  trServiceAccountName :: string
  trDebug :: "string list option"
  trPodTemplate :: "PodTemplate option"

record TaskSpec =
  tsSteps :: "Step list"
  tsStepTemplate :: "Container option"
  tsSidecars :: "Sidecar list"
  tsVolumes :: "Volume list"
  tsResults :: "string list"

record OwnerReference =
  orAPIVersion :: string
  orKind :: string
  orName :: string
  orUID :: string
  orController :: bool
  orBlockOwnerDeletion :: bool

record Pod =
  podNamespace :: string
  podName :: string
  podOwnerReferences :: "OwnerReference list"
  podAnnotations :: "string \<rightharpoonup> string"
  podLabels :: "string \<rightharpoonup> string"
  podRestartPolicy :: string
  podInitContainers :: "Container list"
  podContainers :: "Container list"
  podServiceAccountName :: string
  podVolumes :: "Volume list"
  podNodeSelector :: "string \<rightharpoonup> string"
  podTolerations :: "string list"
  podAffinity :: "Affinity option"
  podSecurityContext :: "string option"
  podRuntimeClassName :: "string option"
  podAutomountServiceAccountToken :: "bool option"
  podSchedulerName :: string
  podHostNetwork :: bool
  podDNSPolicy :: string
  podDNSConfig :: "string option"
  podEnableServiceLinks :: "bool option"
  podPriorityClassName :: string
  podImagePullSecrets :: "string list"
  podHostAliases :: "string list"

record Images =
  ShellImage :: string
  ShellImageWin :: string
  EntrypointImage :: string

text \<open>The builder's \<^verbatim>\<open>KubeClient\<close> and \<^verbatim>\<open>EntrypointCache\<close> are external services; what
  they answer is part of \<open>Deps\<close> below.\<close>

record Builder =
  bImages :: Images
  OverrideHomeEnv :: bool

text \<open>\<^verbatim>\<open>config.FromContextOrDefaults(ctx).FeatureFlags\<close>: the feature flags are all that
  \<open>Build\<close> reads of its context.\<close>

record FeatureFlags =
  EnableAPIFields :: string
  DisableHomeEnvOverwrite :: bool
  DisableWorkingDirOverwrite :: bool
  RunningInEnvWithInjectedSidecars :: bool
  DisableCredsInit :: bool

text \<open>
  What \<open>Build\<close> uses and this file's sources do not hold: the functions and constants
  of other packages and of other files of package \<^verbatim>\<open>pod\<close>, the standard library's
  \<^verbatim>\<open>filepath.Clean\<close>, and the answers of the cluster (the limit ranges of a namespace,
  the generated name suffix). Every theorem about \<open>Build\<close> holds for all of them.
\<close>

record Deps =
  AlphaAPIFields :: string
  AnnotationAffinityAssistantName :: string
  LabelInstance :: string
  LabelComponent :: string
  ComponentNameAffinityAssistant :: string
  TaskRunLabelKey :: string
  SchemeGroupVersion :: string
  sidecarPrefix :: string
  readyAnnotation :: string
  readyAnnotationValue :: string
  scriptsVolume :: Volume
  debugScriptsVolume :: Volume
  debugInfoVolume :: Volume
  toolsVolume :: Volume
  downwardVolume :: Volume
  allZeroQty :: ResourceList
  credsInit :: "FeatureFlags \<Rightarrow> string \<Rightarrow> string \<Rightarrow>
                error + (string list \<times> Volume list \<times> VolumeMount list)"
  MergeStepsWithStepTemplate :: "Container option \<Rightarrow> Step list \<Rightarrow> error + Step list"
  convertScripts :: "string \<Rightarrow> string \<Rightarrow> Step list \<Rightarrow> Sidecar list \<Rightarrow> string list option \<Rightarrow>
                     Container option \<times> Container list \<times> Container list"
  workingDirInit :: "string \<Rightarrow> Container list \<Rightarrow> Container option"
  resolveEntrypoints :: "string \<Rightarrow> string \<Rightarrow> Container list \<Rightarrow> error + Container list"
  orderContainers :: "string \<Rightarrow> string list \<Rightarrow> Container list \<Rightarrow> TaskSpec \<Rightarrow>
                      string list option \<Rightarrow> error + (Container \<times> Container list)"
  listLimitRanges :: "string \<Rightarrow> error + LimitRange list"
  getCredsInitVolume :: "FeatureFlags \<Rightarrow> nat \<Rightarrow> Volume option \<times> VolumeMount option"
  Clean :: "string \<Rightarrow> string"
  StepName :: "string \<Rightarrow> nat \<Rightarrow> string"
  RestrictLength :: "string \<Rightarrow> string"
  RestrictLengthWithRandomSuffix :: "string \<Rightarrow> string"
  ValidateVolumes :: "Volume list \<Rightarrow> error option"
  changesetGet :: "error + string"

text \<open>The local variables of \<open>Build\<close> that live across its stages.\<close>

record Locals =
  initContainers :: "Container list"
  stepContainers :: "Container list"
  sidecarContainers :: "Container list"
  volumes :: "Volume list"
  volumeMounts :: "VolumeMount list"
  implicitEnvVars :: "EnvVar list"

section \<open>Pod assembly: constants of \<^verbatim>\<open>pod.go\<close> and of package \<^verbatim>\<open>pipeline\<close>\<close>

definition TektonHermeticEnvVar :: string where
  "TektonHermeticEnvVar = ''TEKTON_HERMETIC''"

definition ExecutionModeAnnotation :: string where
  "ExecutionModeAnnotation = ''experimental.tekton.dev/execution-mode''"

definition ExecutionModeHermetic :: string where
  "ExecutionModeHermetic = ''hermetic''"

definition ReleaseAnnotation :: string where
  "ReleaseAnnotation = ''pipeline.tekton.dev/release''"

definition WorkspaceDir :: string where
  "WorkspaceDir = ''/workspace''"

definition DefaultResultPath :: string where
  "DefaultResultPath = ''/tekton/results''"

definition HomeDir :: string where
  "HomeDir = ''/tekton/home''"

definition StepsDir :: string where
  "StepsDir = ''/tekton/steps''"

definition implicitVolumeMounts :: "VolumeMount list" where
  "implicitVolumeMounts =
     [\<lparr>MountName = ''tekton-internal-workspace'', MountPath = WorkspaceDir\<rparr>,
      \<lparr>MountName = ''tekton-internal-home'', MountPath = HomeDir\<rparr>,
      \<lparr>MountName = ''tekton-internal-results'', MountPath = DefaultResultPath\<rparr>,
      \<lparr>MountName = ''tekton-internal-steps'', MountPath = StepsDir\<rparr>]"

definition implicitVolumes :: "Volume list" where
  "implicitVolumes =
     [\<lparr>VolumeName = ''tekton-internal-workspace'', VolumeSource = EmptyDir\<rparr>,
      \<lparr>VolumeName = ''tekton-internal-home'', VolumeSource = EmptyDir\<rparr>,
      \<lparr>VolumeName = ''tekton-internal-results'', VolumeSource = EmptyDir\<rparr>,
      \<lparr>VolumeName = ''tekton-internal-steps'', VolumeSource = EmptyDir\<rparr>]"


section \<open>Pod assembly: the functions of \<^verbatim>\<open>pod.go\<close>\<close>

text \<open>Reading a Go map of strings gives the empty string for an absent key, also when
  the map is nil.\<close>

definition annotationOf :: "TaskRun \<Rightarrow> string \<Rightarrow> string" where
  "annotationOf taskRun k =
     (case trAnnotations taskRun of
        None \<Rightarrow> []
      | Some a \<Rightarrow> (case a k of None \<Rightarrow> [] | Some v \<Rightarrow> v))"

definition alphaAPIEnabled :: "Deps \<Rightarrow> FeatureFlags \<Rightarrow> bool" where
  "alphaAPIEnabled d ctx = (EnableAPIFields ctx = AlphaAPIFields d)"

definition ShouldOverrideHomeEnv :: "FeatureFlags \<Rightarrow> bool" where
  "ShouldOverrideHomeEnv cfg = (\<not> DisableHomeEnvOverwrite cfg)"

definition shouldOverrideWorkingDir :: "FeatureFlags \<Rightarrow> bool" where
  "shouldOverrideWorkingDir cfg = (\<not> DisableWorkingDirOverwrite cfg)"

definition shouldAddReadyAnnotationOnPodCreate :: "FeatureFlags \<Rightarrow> Sidecar list \<Rightarrow> bool" where
  "shouldAddReadyAnnotationOnPodCreate cfg sidecars =
     (if length sidecars > 0 then False else \<not> RunningInEnvWithInjectedSidecars cfg)"

definition makeLabels :: "Deps \<Rightarrow> TaskRun \<Rightarrow> (string \<rightharpoonup> string)" where
  "makeLabels d s = (trLabels s)(TaskRunLabelKey d \<mapsto> trName s)"

definition nodeAffinityUsingAffinityAssistant :: "Deps \<Rightarrow> string \<Rightarrow> Affinity" where
  "nodeAffinityUsingAffinityAssistant d affinityAssistantName =
     \<lparr>affNodeAffinity = None,
      affPodAffinity = Some
        \<lparr>paRequiredDuringSchedulingIgnoredDuringExecution =
           [\<lparr>patLabelSelector = Some
               \<lparr>lsMatchLabels =
                  [LabelInstance d \<mapsto> affinityAssistantName,
                   LabelComponent d \<mapsto> ComponentNameAffinityAssistant d],
                lsMatchExpressions = []\<rparr>,
             patNamespaces = [],
             patTopologyKey = ''kubernetes.io/hostname''\<rparr>],
         paPreferredDuringSchedulingIgnoredDuringExecution = []\<rparr>,
      affPodAntiAffinity = None\<rparr>"

text \<open>\<open>getLimitRangeMinimum\<close>: the innermost loop body, the body for one limit range
  item, and the function. The variable the source calls \<open>min\<close> is \<open>mn\<close> here.\<close>

definition raiseMin :: "ResourceList \<Rightarrow> ResourceName \<times> Quantity \<Rightarrow> ResourceList" where
  "raiseMin mn kv =
     (if snd kv > qty mn (fst kv) then AList.update (fst kv) (snd kv) mn else mn)"

definition itemMinimum :: "LimitRangeItem \<Rightarrow> ResourceList \<Rightarrow> ResourceList" where
  "itemMinimum lrItem mn =
     (if lriType lrItem = LimitTypeContainer
      then (case lriMin lrItem of
              None \<Rightarrow> mn
            | Some m \<Rightarrow> fold (\<lambda>kv acc. raiseMin acc kv) m mn)
      else mn)"

definition getLimitRangeMinimum :: "Deps \<Rightarrow> string \<Rightarrow> error + ResourceList" where
  "getLimitRangeMinimum d namespace =
     (case listLimitRanges d namespace of
        Inl err \<Rightarrow> Inl err
      | Inr limitRanges \<Rightarrow>
          Inr (fold (\<lambda>lr mn. fold itemMinimum (lrLimits lr) mn) limitRanges (allZeroQty d)))"

text \<open>
  Modelled from the spec: \<open>resolveResourceRequests\<close> is called by \<open>Build\<close> and defined
  in a file of package \<^verbatim>\<open>pod\<close> that is not among the sources. The spec (4.5):
  ``\<^verbatim>\<open>Apply(floor, stepContainers) -> adjusted containers\<close> ... Applying the floor raises
  any step's request below the floor up to the floor; requests already at or above the
  floor, and all limits, are untouched.'' Requests and floors are read as Go reads a
  map (an absent entry is the zero quantity). The comment at the call site in \<open>Build\<close>
  reads ``Zero out non-max resource requests''; whatever the function does beyond the
  words of the spec is not part of this model.
\<close>

text \<open>Modelled from the spec: one resource name of one container, raised to the floor
  when its request is below it (a part of \<open>resolveResourceRequests\<close>).\<close>

definition raiseRequest :: "ResourceList \<Rightarrow> ResourceName \<Rightarrow> ResourceList \<Rightarrow> ResourceList" where
  "raiseRequest floor k requests =
     (if qty requests k < qty floor k then AList.update k (qty floor k) requests else requests)"

text \<open>Modelled from the spec: the floor applied to one container, for every resource
  name the floor or the container's requests list (a part of
  \<open>resolveResourceRequests\<close>).\<close>

definition applyFloor :: "ResourceList \<Rightarrow> Container \<Rightarrow> Container" where
  "applyFloor floor c =
     c\<lparr>Resources := (Resources c)
         \<lparr>Requests := fold (raiseRequest floor)
                          (map fst floor @ map fst (Requests (Resources c)))
                          (Requests (Resources c))\<rparr>\<rparr>"

text \<open>Modelled from the spec: \<open>resolveResourceRequests\<close>, the floor applied to every step
  container.\<close>

definition resolveResourceRequests :: "Container list \<Rightarrow> ResourceList \<Rightarrow> Container list" where
  "resolveResourceRequests containers limitRangeMin = map (applyFloor limitRangeMin) containers"

text \<open>The first stage of \<open>Build\<close>, up to the rewrite of the steps by \<open>orderContainers\<close>.\<close>

definition Build_prepare ::
  "Deps \<Rightarrow> Builder \<Rightarrow> FeatureFlags \<Rightarrow> TaskRun \<Rightarrow> TaskSpec \<Rightarrow> error + Locals" where
  "Build_prepare d b ctx taskRun taskSpec =
     (case credsInit d ctx (trServiceAccountName taskRun) (trNamespace taskRun) of
        Inl err \<Rightarrow> Inl err
      | Inr (credEntrypointArgs, credVolumes, credVolumeMounts) \<Rightarrow>
     (case MergeStepsWithStepTemplate d (tsStepTemplate taskSpec) (tsSteps taskSpec) of
        Inl err \<Rightarrow> Inl err
      | Inr steps \<Rightarrow>
     (case (if alphaAPIEnabled d ctx
            then convertScripts d (ShellImage (bImages b)) (ShellImageWin (bImages b)) steps
                   (tsSidecars taskSpec) (trDebug taskRun)
            else convertScripts d (ShellImage (bImages b)) [] steps (tsSidecars taskSpec) None) of
        (scriptsInit, stepContainers0, sidecarContainers0) \<Rightarrow>
     (case resolveEntrypoints d (trNamespace taskRun) (trServiceAccountName taskRun)
             stepContainers0 of
        Inl err \<Rightarrow> Inl err
      | Inr stepContainers1 \<Rightarrow>
     (case (if alphaAPIEnabled d ctx
            then orderContainers d (EntrypointImage (bImages b)) credEntrypointArgs
                   stepContainers1 taskSpec (trDebug taskRun)
            else orderContainers d (EntrypointImage (bImages b)) credEntrypointArgs
                   stepContainers1 taskSpec None) of
        Inl err \<Rightarrow> Inl err
      | Inr (entrypointInit, stepContainers2) \<Rightarrow>
          Inr \<lparr>initContainers =
                 entrypointInit #
                 ((case scriptsInit of None \<Rightarrow> [] | Some c \<Rightarrow> [c]) @
                  (case workingDirInit d (ShellImage (bImages b)) stepContainers0 of
                     None \<Rightarrow> [] | Some c \<Rightarrow> [c])),
               stepContainers = stepContainers2,
               sidecarContainers = sidecarContainers0,
               volumes =
                 implicitVolumes @ credVolumes @
                 (case scriptsInit of None \<Rightarrow> [] | Some c \<Rightarrow> [scriptsVolume d]) @
                 (if alphaAPIEnabled d ctx \<and> trDebug taskRun \<noteq> None
                  then [debugScriptsVolume d, debugInfoVolume d] else []) @
                 [toolsVolume d, downwardVolume d],
               volumeMounts = implicitVolumeMounts @ credVolumeMounts,
               implicitEnvVars =
                 (if OverrideHomeEnv b then [\<lparr>EnvName = ''HOME'', EnvValue = HomeDir\<rparr>]
                  else [])\<rparr>)))))"

text \<open>The loops of the second stage, one definition each.\<close>

definition addImplicitEnvVars :: "EnvVar list \<Rightarrow> Container list \<Rightarrow> Container list" where
  "addImplicitEnvVars implicitEnv containers =
     (if length implicitEnv > 0
      then map (\<lambda>s. s\<lparr>Env := implicitEnv @ Env s\<rparr>) containers
      else containers)"

definition addHermeticEnvVar ::
  "Deps \<Rightarrow> FeatureFlags \<Rightarrow> TaskRun \<Rightarrow> Container list \<Rightarrow> Container list" where
  "addHermeticEnvVar d ctx taskRun containers =
     (if annotationOf taskRun ExecutionModeAnnotation = ExecutionModeHermetic \<and>
         alphaAPIEnabled d ctx
      then map (\<lambda>s. s\<lparr>Env := Env s @ [\<lparr>EnvName = TektonHermeticEnvVar, EnvValue = ''1''\<rparr>]\<rparr>)
             containers
      else containers)"

text \<open>The body of the volume mount loop for step \<open>i\<close>: the volume it appends to
  \<open>volumes\<close>, the mount it appends to the step's own, and the step's new mounts.\<close>

definition credsVolumeOf :: "Deps \<Rightarrow> FeatureFlags \<Rightarrow> nat \<Rightarrow> Volume list" where
  "credsVolumeOf d ctx i =
     (case getCredsInitVolume d ctx i of (Some v, Some vm) \<Rightarrow> [v] | _ \<Rightarrow> [])"

definition credsMountOf :: "Deps \<Rightarrow> FeatureFlags \<Rightarrow> nat \<Rightarrow> VolumeMount list" where
  "credsMountOf d ctx i =
     (case getCredsInitVolume d ctx i of (Some v, Some vm) \<Rightarrow> [vm] | _ \<Rightarrow> [])"

definition mountsToAdd :: "Deps \<Rightarrow> VolumeMount list \<Rightarrow> VolumeMount list \<Rightarrow> VolumeMount list" where
  "mountsToAdd d requested implicitMounts =
     filter (\<lambda>imp. Clean d (MountPath imp) \<notin> set (map (\<lambda>vm. Clean d (MountPath vm)) requested))
       implicitMounts"

definition addVolumeMounts ::
  "Deps \<Rightarrow> FeatureFlags \<Rightarrow> VolumeMount list \<Rightarrow> nat \<Rightarrow> Container \<Rightarrow> Container" where
  "addVolumeMounts d ctx implicitMounts i s =
     (let requested = VolumeMounts s @ credsMountOf d ctx i
      in s\<lparr>VolumeMounts := requested @ mountsToAdd d requested implicitMounts\<rparr>)"

definition nameStep :: "Deps \<Rightarrow> FeatureFlags \<Rightarrow> nat \<Rightarrow> Container \<Rightarrow> Container" where
  "nameStep d ctx i s =
     s\<lparr>WorkingDir :=
         (if WorkingDir s = [] \<and> shouldOverrideWorkingDir ctx then WorkspaceDir
          else WorkingDir s),
       Name := RestrictLength d (StepName d (Name s) i)\<rparr>"

definition Build_steps ::
  "Deps \<Rightarrow> FeatureFlags \<Rightarrow> TaskRun \<Rightarrow> Locals \<Rightarrow> error + Locals" where
  "Build_steps d ctx taskRun l =
     (case getLimitRangeMinimum d (trNamespace taskRun) of
        Inl err \<Rightarrow> Inl err
      | Inr limitRangeMin \<Rightarrow>
          (let floored = resolveResourceRequests (stepContainers l) limitRangeMin;
               withEnv = addHermeticEnvVar d ctx taskRun
                           (addImplicitEnvVars (implicitEnvVars l) floored);
               mounted = map (\<lambda>(i, s). addVolumeMounts d ctx (volumeMounts l) i s)
                           (enumerate 0 withEnv);
               named = map (\<lambda>(i, s). nameStep d ctx i s) (enumerate 0 mounted)
           in Inr (l\<lparr>stepContainers := named,
                     volumes :=
                       volumes l @
                       concat (map (credsVolumeOf d ctx) [0 ..< length withEnv])\<rparr>)))"

definition emptyTemplate :: PodTemplate where
  "emptyTemplate =
     \<lparr>ptNodeSelector = Map.empty, ptTolerations = [], ptAffinity = None,
      ptSecurityContext = None, ptVolumes = [], ptRuntimeClassName = None,
      ptAutomountServiceAccountToken = None, ptDNSPolicy = None, ptDNSConfig = None,
      ptEnableServiceLinks = None, ptPriorityClassName = None, ptSchedulerName = [],
      ptImagePullSecrets = [], ptHostAliases = [], ptHostNetwork = False\<rparr>"

definition NewControllerRef :: "Deps \<Rightarrow> TaskRun \<Rightarrow> OwnerReference" where
  "NewControllerRef d taskRun =
     \<lparr>orAPIVersion = SchemeGroupVersion d, orKind = ''TaskRun'', orName = trName taskRun,
      orUID = trUID taskRun, orController = True, orBlockOwnerDeletion = True\<rparr>"

definition selectAffinity :: "Deps \<Rightarrow> TaskRun \<Rightarrow> PodTemplate \<Rightarrow> Affinity option" where
  "selectAffinity d taskRun podTemplate =
     (if annotationOf taskRun (AnnotationAffinityAssistantName d) \<noteq> []
      then Some (nodeAffinityUsingAffinityAssistant d
                   (annotationOf taskRun (AnnotationAffinityAssistantName d)))
      else ptAffinity podTemplate)"

text \<open>
  The last stage. \<open>podAnnotations := taskRun.Annotations\<close> names the task run's own map,
  so the two assignments to \<open>podAnnotations\<close> write into the task run: the stage returns
  the task run as the call leaves it. Assigning to a nil map panics.
\<close>

definition Build_pod ::
  "Deps \<Rightarrow> FeatureFlags \<Rightarrow> TaskRun \<Rightarrow> TaskSpec \<Rightarrow> Locals \<Rightarrow> TaskRun \<times> (error + Pod)" where
  "Build_pod d ctx taskRun taskSpec l =
     (let podTemplate = (case trPodTemplate taskRun of None \<Rightarrow> emptyTemplate | Some t \<Rightarrow> t);
          allVolumes = volumes l @ tsVolumes taskSpec @ ptVolumes podTemplate
      in case ValidateVolumes d allVolumes of
           Some err \<Rightarrow> (taskRun, Inl err)
         | None \<Rightarrow>
      (case changesetGet d of
           Inl err \<Rightarrow> (taskRun, Inl err)
         | Inr version \<Rightarrow>
      (case trAnnotations taskRun of
           None \<Rightarrow> (taskRun, Inl NilMapAssignment)
         | Some a \<Rightarrow>
      (let annotations =
             (if shouldAddReadyAnnotationOnPodCreate ctx (tsSidecars taskSpec)
              then (a(ReleaseAnnotation \<mapsto> version))(readyAnnotation d \<mapsto> readyAnnotationValue d)
              else a(ReleaseAnnotation \<mapsto> version))
       in (taskRun\<lparr>trAnnotations := Some annotations\<rparr>,
           Inr \<lparr>podNamespace = trNamespace taskRun,
                podName = RestrictLengthWithRandomSuffix d (trName taskRun @ ''-pod''),
                podOwnerReferences = [NewControllerRef d taskRun],
                podAnnotations = annotations,
                podLabels = makeLabels d taskRun,
                podRestartPolicy = ''Never'',
                podInitContainers = initContainers l,
                podContainers =
                  stepContainers l @
                  map (\<lambda>sc. sc\<lparr>Name := RestrictLength d (sidecarPrefix d @ Name sc)\<rparr>)
                    (sidecarContainers l),
                podServiceAccountName = trServiceAccountName taskRun,
                podVolumes = allVolumes,
                podNodeSelector = ptNodeSelector podTemplate,
                podTolerations = ptTolerations podTemplate,
                podAffinity = selectAffinity d taskRun podTemplate,
                podSecurityContext = ptSecurityContext podTemplate,
                podRuntimeClassName = ptRuntimeClassName podTemplate,
                podAutomountServiceAccountToken = ptAutomountServiceAccountToken podTemplate,
                podSchedulerName = ptSchedulerName podTemplate,
                podHostNetwork = ptHostNetwork podTemplate,
                podDNSPolicy = (case ptDNSPolicy podTemplate of None \<Rightarrow> [] | Some p \<Rightarrow> p),
                podDNSConfig = ptDNSConfig podTemplate,
                podEnableServiceLinks = ptEnableServiceLinks podTemplate,
                podPriorityClassName =
                  (case ptPriorityClassName podTemplate of None \<Rightarrow> [] | Some p \<Rightarrow> p),
                podImagePullSecrets = ptImagePullSecrets podTemplate,
                podHostAliases = ptHostAliases podTemplate\<rparr>)))))"

definition Build ::
  "Deps \<Rightarrow> Builder \<Rightarrow> FeatureFlags \<Rightarrow> TaskRun \<Rightarrow> TaskSpec \<Rightarrow> TaskRun \<times> (error + Pod)" where
  "Build d b ctx taskRun taskSpec =
     (case Build_prepare d b ctx taskRun taskSpec of
        Inl err \<Rightarrow> (taskRun, Inl err)
      | Inr l0 \<Rightarrow>
          (case Build_steps d ctx taskRun l0 of
             Inl err \<Rightarrow> (taskRun, Inl err)
           | Inr l \<Rightarrow> Build_pod d ctx taskRun taskSpec l))"


section \<open>Entrypoint wrapper and termination message\<close>

text \<open>The length error of package \<^verbatim>\<open>message\<close>: a string type of its own, its one
  value, and its \<^verbatim>\<open>Error()\<close> method.\<close>

datatype MessageLengthError = MessageLengthError string

definition errTooLong :: MessageLengthError where
  "errTooLong = MessageLengthError
     ''Termination message is above max allowed size 4096, caused by large task result.''"

fun Error :: "MessageLengthError \<Rightarrow> string" where
  "Error (MessageLengthError e) = e"

text \<open>
  Modelled from the spec: the wrapper that runs a step and the codec of its
  termination message are not among the sources (of the codec only the error type
  above is). The spec (3, 4.2): a step outcome holds the exit code, the reason, the
  captured results and a message. ``Step i's wrapper blocks until the predecessor's
  completion marker exists (skip this wait for i = 0). ... exit code 0 \<rightarrow> Completed.
  Non-zero exit code with policy StopAndFail \<rightarrow> Errored; the wrapper exits with the real
  non-zero code ... and no further completion marker is written. Non-zero exit code with
  policy Continue \<rightarrow> ErroredIgnored; the wrapper always writes the completion marker
  (unblocking step i+1) and always exits 0 toward the platform regardless of the real
  code, while the real code is still recorded in the outcome. Timeout elapsed \<rightarrow>
  TimedOut, handled identically to a StopAndFail non-zero exit unless policy is Continue.
  Signal received from outside the wrapper \<rightarrow> ExternallyTerminated, no completion marker
  written.'' The set of markers is the set of the step indices whose marker file exists;
  a command that timed out or was signalled carries the status it ended with.
\<close>

datatype OnErrorPolicy = StopAndFail | Continue

datatype TerminationReason = Completed | Errored | ErroredIgnored | TimedOut | ExternallyTerminated

record StepOutcome =
  ExitCode :: int
  Reason :: TerminationReason
  Results :: "(string \<times> string) list"
  Message :: string

datatype CommandEnd = Exited int | TimeoutElapsed int | SignalReceived int

record WrapperRun =
  runOutcome :: StepOutcome
  platformExitCode :: int
  markerWritten :: bool

text \<open>Modelled from the spec: the wait condition of step \<open>i\<close> of the absent wrapper.\<close>

definition waitSatisfied :: "nat set \<Rightarrow> nat \<Rightarrow> bool" where
  "waitSatisfied markers i = (i = 0 \<or> i - 1 \<in> markers)"

text \<open>Modelled from the spec: what the absent wrapper reports for a command that has
  ended, by policy.\<close>

fun runCommand :: "OnErrorPolicy \<Rightarrow> CommandEnd \<Rightarrow> (string \<times> string) list \<Rightarrow> WrapperRun" where
  "runCommand policy (Exited code) results =
     (if code = 0
      then \<lparr>runOutcome = \<lparr>ExitCode = 0, Reason = Completed, Results = results, Message = []\<rparr>,
            platformExitCode = 0, markerWritten = True\<rparr>
      else if policy = Continue
      then \<lparr>runOutcome = \<lparr>ExitCode = code, Reason = ErroredIgnored, Results = results,
                          Message = []\<rparr>,
            platformExitCode = 0, markerWritten = True\<rparr>
      else \<lparr>runOutcome = \<lparr>ExitCode = code, Reason = Errored, Results = results, Message = []\<rparr>,
            platformExitCode = code, markerWritten = False\<rparr>)"
| "runCommand policy (TimeoutElapsed code) results =
     (if policy = Continue
      then \<lparr>runOutcome = \<lparr>ExitCode = code, Reason = TimedOut, Results = results, Message = []\<rparr>,
            platformExitCode = 0, markerWritten = True\<rparr>
      else \<lparr>runOutcome = \<lparr>ExitCode = code, Reason = TimedOut, Results = results, Message = []\<rparr>,
            platformExitCode = code, markerWritten = False\<rparr>)"
| "runCommand policy (SignalReceived code) results =
     \<lparr>runOutcome = \<lparr>ExitCode = code, Reason = ExternallyTerminated, Results = results,
                    Message = []\<rparr>,
      platformExitCode = code, markerWritten = False\<rparr>"

text \<open>Modelled from the spec: one run of the absent wrapper for step \<open>i\<close>; \<open>None\<close> while
  its wait condition does not hold, else the markers it leaves and what it reports.\<close>

definition wrapperStep ::
  "nat set \<Rightarrow> nat \<Rightarrow> OnErrorPolicy \<Rightarrow> CommandEnd \<Rightarrow> (string \<times> string) list \<Rightarrow>
   (nat set \<times> WrapperRun) option" where
  "wrapperStep markers i policy ended results =
     (if waitSatisfied markers i
      then Some (if markerWritten (runCommand policy ended results) then insert i markers
                 else markers,
                 runCommand policy ended results)
      else None)"

text \<open>
  Modelled from the spec (4.3, 7): ``\<^verbatim>\<open>Encode(outcome) -> bytes | LengthError\<close> ... total
  encoded size must not exceed 4096 bytes ... If encoding would exceed the ceiling,
  encoding fails with a LengthError distinct from any execution failure.'' The spec does
  not fix the byte format, so the serialiser is a parameter. An error a consumer sees
  is a length error, a step-execution failure with the exit code, or a cancellation.
\<close>

datatype WrapperError =
    LengthError MessageLengthError
  | StepFailed int
  | Cancelled

text \<open>Modelled from the spec: the ceiling of the absent codec.\<close>

definition maxTerminationMessageSize :: nat where
  "maxTerminationMessageSize = 4096"

text \<open>Modelled from the spec: \<open>Encode\<close> of the absent codec.\<close>

definition Encode :: "(StepOutcome \<Rightarrow> string) \<Rightarrow> StepOutcome \<Rightarrow> WrapperError + string" where
  "Encode serialise outcome =
     (if length (serialise outcome) > maxTerminationMessageSize
      then Inl (LengthError errTooLong)
      else Inr (serialise outcome))"


section \<open>Notions the statements use\<close>

text \<open>All container minimums a list of limit ranges declares, in the order
  \<open>getLimitRangeMinimum\<close> visits them.\<close>

definition containerMinimums :: "LimitRange list \<Rightarrow> (ResourceName \<times> Quantity) list" where
  "containerMinimums limitRanges =
     concat (map (\<lambda>lrItem. case lriMin lrItem of None \<Rightarrow> [] | Some m \<Rightarrow> m)
               (filter (\<lambda>lrItem. lriType lrItem = LimitTypeContainer)
                  (concat (map lrLimits limitRanges))))"

text \<open>The value a container's process sees for a variable: of several entries of one
  name the last one counts (the comments at both places where \<open>Build\<close> adds variables
  rely on this).\<close>

definition effectiveEnv :: "EnvVar list \<Rightarrow> string \<Rightarrow> string option" where
  "effectiveEnv env name = map_of (rev (map (\<lambda>e. (EnvName e, EnvValue e)) env)) name"

text \<open>What the hermetic block of \<open>Build\<close> appends to the variables of each step.\<close>

definition hermeticEnv :: "Deps \<Rightarrow> FeatureFlags \<Rightarrow> TaskRun \<Rightarrow> EnvVar list" where
  "hermeticEnv d ctx taskRun =
     (if annotationOf taskRun ExecutionModeAnnotation = ExecutionModeHermetic \<and>
         EnableAPIFields ctx = AlphaAPIFields d
      then [\<lparr>EnvName = TektonHermeticEnvVar, EnvValue = ''1''\<rparr>] else [])"

section \<open>A concrete run\<close>

text \<open>
  One instance of the parts \<open>Build\<close> takes from elsewhere, to run it on concrete input:
  collaborators that succeed and leave the steps as they are, a namespace with two limit
  ranges (container minimums of 100m and 250m CPU, and a pod minimum that does not
  count), a path cleaner that drops trailing slashes, and a fixed name suffix.
\<close>

fun showNat :: "nat \<Rightarrow> string" where
  "showNat n =
     (if n < 10 then [char_of (48 + n)] else showNat (n div 10) @ [char_of (48 + n mod 10)])"

fun dropTrailingSlashes :: "string \<Rightarrow> string" where
  "dropTrailingSlashes [] = []"
| "dropTrailingSlashes (c # cs) =
     (if list_all (\<lambda>x. x = CHR ''/'') cs \<and> cs \<noteq> [] then [c]
      else c # dropTrailingSlashes cs)"

definition limitRanges0 :: "LimitRange list" where
  "limitRanges0 =
     [\<lparr>lrName = ''low'',
       lrLimits = [\<lparr>lriType = LimitTypeContainer, lriMax = None,
                    lriMin = Some [(''cpu'', 100)]\<rparr>]\<rparr>,
      \<lparr>lrName = ''high'',
       lrLimits = [\<lparr>lriType = LimitTypePod, lriMax = None, lriMin = Some [(''cpu'', 999)]\<rparr>,
                   \<lparr>lriType = LimitTypeContainer, lriMax = None,
                    lriMin = Some [(''cpu'', 250)]\<rparr>]\<rparr>]"

definition deps0 :: Deps where
  "deps0 =
     \<lparr>AlphaAPIFields = ''alpha'',
      AnnotationAffinityAssistantName = ''pipeline.tekton.dev/affinity-assistant'',
      LabelInstance = ''app.kubernetes.io/instance'',
      LabelComponent = ''app.kubernetes.io/component'',
      ComponentNameAffinityAssistant = ''affinity-assistant'',
      TaskRunLabelKey = ''tekton.dev/taskRun'',
      SchemeGroupVersion = ''tekton.dev/v1beta1'',
      sidecarPrefix = ''sidecar-'',
      readyAnnotation = ''tekton.dev/ready'',
      readyAnnotationValue = ''READY'',
      scriptsVolume = \<lparr>VolumeName = ''tekton-internal-scripts'', VolumeSource = EmptyDir\<rparr>,
      debugScriptsVolume = \<lparr>VolumeName = ''tekton-internal-debug-scripts'', VolumeSource = EmptyDir\<rparr>,
      debugInfoVolume = \<lparr>VolumeName = ''tekton-internal-debug-info'', VolumeSource = EmptyDir\<rparr>,
      toolsVolume = \<lparr>VolumeName = ''tekton-internal-tools'', VolumeSource = EmptyDir\<rparr>,
      downwardVolume = \<lparr>VolumeName = ''tekton-internal-downward'',
                        VolumeSource = OtherSource ''downwardAPI''\<rparr>,
      allZeroQty = [(''cpu'', 0), (''memory'', 0), (''ephemeral-storage'', 0)],
      credsInit = (\<lambda>ctx serviceAccountName namespace. Inr ([], [], [])),
      MergeStepsWithStepTemplate = (\<lambda>template steps. Inr steps),
      convertScripts = (\<lambda>shellImage shellImageWin steps sidecars debugConfig.
         (None, map Container.truncate steps, map Container.truncate sidecars)),
      workingDirInit = (\<lambda>shellImage containers. None),
      resolveEntrypoints = (\<lambda>namespace serviceAccountName containers. Inr containers),
      orderContainers = (\<lambda>entrypointImage args containers taskSpec debugConfig.
         Inr (\<lparr>Name = ''place-tools'', Image = entrypointImage, Command = [], Args = [],
               WorkingDir = [], Env = [], Resources = \<lparr>Limits = [], Requests = []\<rparr>,
               VolumeMounts = []\<rparr>, containers)),
      listLimitRanges = (\<lambda>namespace. Inr limitRanges0),
      getCredsInitVolume = (\<lambda>ctx i.
         if DisableCredsInit ctx then (None, None)
         else (Some \<lparr>VolumeName = ''tekton-creds-init-home-'' @ showNat i,
                      VolumeSource = EmptyDir\<rparr>,
               Some \<lparr>MountName = ''tekton-creds-init-home-'' @ showNat i,
                      MountPath = ''/tekton/creds''\<rparr>)),
      Clean = dropTrailingSlashes,
      StepName = (\<lambda>name i. if name = [] then ''step-unnamed-'' @ showNat i
                             else ''step-'' @ name),
      RestrictLength = take 63,
      RestrictLengthWithRandomSuffix = (\<lambda>base. take 57 base @ ''-x7k2q''),
      ValidateVolumes = (\<lambda>vs. None),
      changesetGet = Inr ''v0.30.0''\<rparr>"

definition builder0 :: Builder where
  "builder0 =
     \<lparr>bImages = \<lparr>ShellImage = ''busybox'', ShellImageWin = ''nanoserver'',
                  EntrypointImage = ''entrypoint''\<rparr>,
      OverrideHomeEnv = True\<rparr>"

definition ctx0 :: FeatureFlags where
  "ctx0 =
     \<lparr>EnableAPIFields = ''alpha'', DisableHomeEnvOverwrite = False,
      DisableWorkingDirOverwrite = False, RunningInEnvWithInjectedSidecars = True,
      DisableCredsInit = False\<rparr>"


definition userAffinity0 :: Affinity where
  "userAffinity0 =
     \<lparr>affNodeAffinity = Some ''zone-a'', affPodAffinity = None, affPodAntiAffinity = None\<rparr>"

definition taskRun0 :: TaskRun where
  "taskRun0 =
     \<lparr>trName = ''run'', trNamespace = ''ns'', trUID = ''uid-1'',
      trAnnotations = Some [ExecutionModeAnnotation \<mapsto> ExecutionModeHermetic,
                            ''pipeline.tekton.dev/affinity-assistant'' \<mapsto> ''assistant-1''],
      trLabels = Map.empty,
      trServiceAccountName = ''default'',
      trDebug = None,
      trPodTemplate = Some (emptyTemplate\<lparr>ptAffinity := Some userAffinity0\<rparr>)\<rparr>"

definition stepA :: Step where
  "stepA =
     \<lparr>Name = ''exit-with-1'', Image = ''alpine'', Command = [''sh''], Args = [],
      WorkingDir = [],
      Env = [\<lparr>EnvName = ''HOME'', EnvValue = ''/root''\<rparr>,
             \<lparr>EnvName = ''TEKTON_HERMETIC'', EnvValue = ''0''\<rparr>],
      Resources = \<lparr>Limits = [(''cpu'', 500)], Requests = [(''cpu'', 50)]\<rparr>,
      VolumeMounts = [\<lparr>MountName = ''data'', MountPath = ''/workspace/''\<rparr>],
      Script = [], OnError = ''continue'', Timeout = None\<rparr>"

definition stepB :: Step where
  "stepB =
     \<lparr>Name = [], Image = ''alpine'', Command = [''sh''], Args = [],
      WorkingDir = ''/tmp'', Env = [],
      Resources = \<lparr>Limits = [], Requests = [(''cpu'', 300)]\<rparr>,
      VolumeMounts = [],
      Script = [], OnError = ''continue'', Timeout = None\<rparr>"

definition sidecar0 :: Sidecar where
  "sidecar0 =
     \<lparr>Name = ''logger'', Image = ''busybox'', Command = [''tail''], Args = [],
      WorkingDir = [], Env = [], Resources = \<lparr>Limits = [], Requests = []\<rparr>,
      VolumeMounts = [], SidecarScript = []\<rparr>"

definition taskSpec0 :: TaskSpec where
  "taskSpec0 =
     \<lparr>tsSteps = [stepA, stepB], tsStepTemplate = None, tsSidecars = [sidecar0],
      tsVolumes = [\<lparr>VolumeName = ''data'', VolumeSource = OtherSource ''pvc''\<rparr>],
      tsResults = []\<rparr>"

text \<open>The state of \<open>Build\<close> after its first stage on this input, and the pod it
  returns.\<close>

definition locals0 :: Locals where
  "locals0 =
     \<lparr>initContainers =
        [\<lparr>Name = ''place-tools'', Image = ''entrypoint'', Command = [], Args = [],
          WorkingDir = [], Env = [], Resources = \<lparr>Limits = [], Requests = []\<rparr>,
          VolumeMounts = []\<rparr>],
      stepContainers = [Container.truncate stepA, Container.truncate stepB],
      sidecarContainers = [Container.truncate sidecar0],
      volumes = implicitVolumes @
                [\<lparr>VolumeName = ''tekton-internal-tools'', VolumeSource = EmptyDir\<rparr>,
                 \<lparr>VolumeName = ''tekton-internal-downward'',
                  VolumeSource = OtherSource ''downwardAPI''\<rparr>],
      volumeMounts = implicitVolumeMounts,
      implicitEnvVars = [\<lparr>EnvName = ''HOME'', EnvValue = ''/tekton/home''\<rparr>]\<rparr>"

definition podStepA :: Container where
  "podStepA =
     \<lparr>Name = ''step-exit-with-1'', Image = ''alpine'', Command = [''sh''], Args = [],
      WorkingDir = ''/workspace'',
      Env = [\<lparr>EnvName = ''HOME'', EnvValue = ''/tekton/home''\<rparr>,
             \<lparr>EnvName = ''HOME'', EnvValue = ''/root''\<rparr>,
             \<lparr>EnvName = ''TEKTON_HERMETIC'', EnvValue = ''0''\<rparr>,
             \<lparr>EnvName = ''TEKTON_HERMETIC'', EnvValue = ''1''\<rparr>],
      Resources = \<lparr>Limits = [(''cpu'', 500)], Requests = [(''cpu'', 250)]\<rparr>,
      VolumeMounts =
        [\<lparr>MountName = ''data'', MountPath = ''/workspace/''\<rparr>,
         \<lparr>MountName = ''tekton-creds-init-home-0'', MountPath = ''/tekton/creds''\<rparr>,
         \<lparr>MountName = ''tekton-internal-home'', MountPath = ''/tekton/home''\<rparr>,
         \<lparr>MountName = ''tekton-internal-results'', MountPath = ''/tekton/results''\<rparr>,
         \<lparr>MountName = ''tekton-internal-steps'', MountPath = ''/tekton/steps''\<rparr>]\<rparr>"

definition podStepB :: Container where
  "podStepB =
     \<lparr>Name = ''step-unnamed-1'', Image = ''alpine'', Command = [''sh''], Args = [],
      WorkingDir = ''/tmp'',
      Env = [\<lparr>EnvName = ''HOME'', EnvValue = ''/tekton/home''\<rparr>,
             \<lparr>EnvName = ''TEKTON_HERMETIC'', EnvValue = ''1''\<rparr>],
      Resources = \<lparr>Limits = [], Requests = [(''cpu'', 300)]\<rparr>,
      VolumeMounts =
        [\<lparr>MountName = ''tekton-creds-init-home-1'', MountPath = ''/tekton/creds''\<rparr>,
         \<lparr>MountName = ''tekton-internal-workspace'', MountPath = ''/workspace''\<rparr>,
         \<lparr>MountName = ''tekton-internal-home'', MountPath = ''/tekton/home''\<rparr>,
         \<lparr>MountName = ''tekton-internal-results'', MountPath = ''/tekton/results''\<rparr>,
         \<lparr>MountName = ''tekton-internal-steps'', MountPath = ''/tekton/steps''\<rparr>]\<rparr>"

definition podSidecar0 :: Container where
  "podSidecar0 =
     \<lparr>Name = ''sidecar-logger'', Image = ''busybox'', Command = [''tail''], Args = [],
      WorkingDir = [], Env = [], Resources = \<lparr>Limits = [], Requests = []\<rparr>,
      VolumeMounts = []\<rparr>"

definition annotations0 :: "string \<rightharpoonup> string" where
  "annotations0 =
     [ExecutionModeAnnotation \<mapsto> ExecutionModeHermetic,
      ''pipeline.tekton.dev/affinity-assistant'' \<mapsto> ''assistant-1'',
      ReleaseAnnotation \<mapsto> ''v0.30.0'']"

definition pod0 :: Pod where
  "pod0 =
     \<lparr>podNamespace = ''ns'',
      podName = ''run-pod-x7k2q'',
      podOwnerReferences =
        [\<lparr>orAPIVersion = ''tekton.dev/v1beta1'', orKind = ''TaskRun'', orName = ''run'',
          orUID = ''uid-1'', orController = True, orBlockOwnerDeletion = True\<rparr>],
      podAnnotations = annotations0,
      podLabels = [''tekton.dev/taskRun'' \<mapsto> ''run''],
      podRestartPolicy = ''Never'',
      podInitContainers = initContainers locals0,
      podContainers = [podStepA, podStepB, podSidecar0],
      podServiceAccountName = ''default'',
      podVolumes =
        implicitVolumes @
        [\<lparr>VolumeName = ''tekton-internal-tools'', VolumeSource = EmptyDir\<rparr>,
         \<lparr>VolumeName = ''tekton-internal-downward'', VolumeSource = OtherSource ''downwardAPI''\<rparr>,
         \<lparr>VolumeName = ''tekton-creds-init-home-0'', VolumeSource = EmptyDir\<rparr>,
         \<lparr>VolumeName = ''tekton-creds-init-home-1'', VolumeSource = EmptyDir\<rparr>,
         \<lparr>VolumeName = ''data'', VolumeSource = OtherSource ''pvc''\<rparr>],
      podNodeSelector = Map.empty,
      podTolerations = [],
      podAffinity = Some (nodeAffinityUsingAffinityAssistant deps0 ''assistant-1''),
      podSecurityContext = None,
      podRuntimeClassName = None,
      podAutomountServiceAccountToken = None,
      podSchedulerName = [],
      podHostNetwork = False,
      podDNSPolicy = [],
      podDNSConfig = None,
      podEnableServiceLinks = None,
      podPriorityClassName = [],
      podImagePullSecrets = [],
      podHostAliases = []\<rparr>"


section \<open>The reference matcher returns nil when there is no reference\<close>

declare ends.simps [simp del]
declare findAll.simps [simp del]
declare showNat.simps [simp del]

lemma ends_sound: "t \<in> set (ends r s) \<Longrightarrow> \<exists>w. s = w @ t \<and> w \<in> lang r"
proof (induction r s arbitrary: t rule: ends.induct)
  case (1 c s)
  then show ?case by (cases s) (auto simp: ends.simps split: if_splits)
next
  case (2 rs s)
  then show ?case by (cases s) (auto simp: ends.simps split: if_splits)
next
  case (3 r1 r2 s)
  from "3.prems" obtain m where m: "m \<in> set (ends r1 s)" and t: "t \<in> set (ends r2 m)"
    by (auto simp: ends.simps)
  from "3.IH"(1)[OF m] obtain u where u: "s = u @ m" "u \<in> lang r1" by blast
  from "3.IH"(2)[OF m t] obtain v where v: "m = v @ t" "v \<in> lang r2" by blast
  from u v have "s = (u @ v) @ t \<and> u @ v \<in> lang (Seq r1 r2)" by auto
  then show ?case by blast
next
  case (4 r1 r2 s)
  then show ?case by (auto simp: ends.simps)
next
  case (5 r s)
  show ?case
  proof (cases "t = s")
    case True
    then show ?thesis by (auto intro: star.intros)
  next
    case False
    with "5.prems" obtain m where m: "m \<in> set (ends r s)" "length m < length s"
      and t: "t \<in> set (ends (Star r) m)"
      by (subst (asm) ends.simps) auto
    from "5.IH"(1)[OF m(1)] obtain u where u: "s = u @ m" "u \<in> lang r" by blast
    from m have m': "m \<in> set (filter (\<lambda>t. length t < length s) (ends r s))" by simp
    from "5.IH"(2)[OF m' t] obtain v where v: "m = v @ t" "v \<in> lang (Star r)" by blast
    from u v have "s = (u @ v) @ t \<and> u @ v \<in> lang (Star r)" by (auto intro: star.intros)
    then show ?thesis by blast
  qed
next
  case (6 r s)
  then show ?case by (auto simp: ends.simps)
qed

lemma matchAt_sound: "matchAt r s = Some t \<Longrightarrow> \<exists>w. s = w @ t \<and> w \<in> lang r"
  using ends_sound[of t r s] by (auto simp: matchAt_def split: list.splits)

lemma findAll_no_match:
  "(\<And>p q. s = p @ q \<Longrightarrow> matchAt r q = None) \<Longrightarrow> findAll r s adj = []"
proof (induction s arbitrary: adj)
  case Nil
  then show ?case using Nil[of "[]" "[]"] by (simp add: findAll.simps)
next
  case (Cons a s)
  have 1: "matchAt r (a # s) = None" using Cons.prems[of "[]" "a # s"] by simp
  have 2: "findAll r s False = []"
  proof (rule Cons.IH)
    fix p q assume "s = p @ q"
    then show "matchAt r q = None" using Cons.prems[of "a # p" q] by simp
  qed
  show ?case using 1 2 by (subst findAll.simps) simp
qed

lemma no_reference_no_match:
  assumes "\<not> containsReference v" and "v = p @ q"
  shows "matchAt VariableSubstitutionRegex q = None"
proof (cases "matchAt VariableSubstitutionRegex q")
  case None
  then show ?thesis .
next
  case (Some t)
  from matchAt_sound[OF Some] obtain w where "q = w @ t" "w \<in> lang VariableSubstitutionRegex"
    by blast
  with assms(2) have "containsReference v" unfolding containsReference_def by blast
  with assms(1) show ?thesis by simp
qed

lemma fold_goAppend_Some:
  "fold (\<lambda>e res. goAppend res (f e)) es (Some a) = Some (a @ map f es)"
  by (induction es arbitrary: a) (simp_all add: goAppend_def)

lemma validateString_eq:
  "validateString v =
     (case findAll VariableSubstitutionRegex v False of
        [] \<Rightarrow> None
      | m # ms \<Rightarrow> Some (map stripVarSubExpression (m # ms)))"
proof -
  have n: "goAppend None x = Some [x]" for x :: string
    by (simp add: goAppend_def)
  show ?thesis
    by (simp add: validateString_def FindAllString_def fold_goAppend_Some n
        split: list.splits)
qed

lemma validateString_never_empty: "validateString v \<noteq> Some []"
  by (simp add: validateString_eq split: list.splits)

lemma reference_starts:
  "w \<in> lang VariableSubstitutionRegex \<Longrightarrow> \<exists>rest. w = CHR ''$'' # CHR ''('' # rest"
  by (auto simp: VariableSubstitutionRegex_def variableSubstitutionFormat_def)

lemma no_dollar_no_reference: "CHR ''$'' \<notin> set v \<Longrightarrow> \<not> containsReference v"
proof
  assume d: "CHR ''$'' \<notin> set v" and "containsReference v"
  then obtain p w q where e: "v = p @ w @ q" and "w \<in> lang VariableSubstitutionRegex"
    unfolding containsReference_def by blast
  then obtain rest where "w = CHR ''$'' # CHR ''('' # rest" using reference_starts by blast
  with e have "CHR ''$'' \<in> set v" by simp
  with d show False by simp
qed

text \<open>
  Claim C4, as the code has it. For every input string that contains no reference (no
  substring of it is a word of the pattern), \<open>validateString\<close> returns nil, the absent
  slice, because \<open>FindAllString\<close> returns nil and the function hands that on; it does
  not return a present, empty list, and it has no error result.
\<close>

theorem validateString_nil_without_reference:
  "\<not> containsReference v \<Longrightarrow>
   FindAllString VariableSubstitutionRegex v = None \<and> validateString v = None"
proof -
  assume a: "\<not> containsReference v"
  have "findAll VariableSubstitutionRegex v False = []"
    by (rule findAll_no_match) (rule no_reference_no_match[OF a])
  then show ?thesis by (simp add: validateString_def FindAllString_def)
qed

theorem validateString_nil_without_reference_witness:
  "\<not> containsReference ''echo hello'' \<and>
   FindAllString VariableSubstitutionRegex ''echo hello'' = None \<and>
   validateString ''echo hello'' = None"
proof -
  have h: "\<not> containsReference ''echo hello''"
    by (rule no_dollar_no_reference) simp
  show ?thesis using h validateString_nil_without_reference[OF h] by simp
qed

text \<open>Claim C4 as stated fails: on \<open>''abc''\<close>, which contains no reference, the result is
  nil and not the present empty list.\<close>

theorem validateString_empty_list_counterexample:
  "\<not> containsReference ''abc'' \<and> validateString ''abc'' = None \<and>
   validateString ''abc'' \<noteq> Some []"
proof -
  have 1: "\<not> containsReference ''abc''"
    by (rule no_dollar_no_reference) simp
  have 2: "validateString ''abc'' = None"
    by code_simp
  show ?thesis using 1 2 by simp
qed

section \<open>The wrapper under policy Continue, and the length error\<close>

text \<open>
  Claim C2. For every step with policy Continue whose command exits with a non-zero
  code, the wrapper (once its wait condition holds) reports reason ErroredIgnored with
  the real exit code, writes the completion marker, so that the wait condition of the
  next step holds, and exits 0 toward the platform.
\<close>

theorem continue_ignores_nonzero_exit:
  "code \<noteq> 0 \<Longrightarrow> waitSatisfied markers i \<Longrightarrow>
   \<exists>markers' run.
     wrapperStep markers i Continue (Exited code) results = Some (markers', run) \<and>
     Reason (runOutcome run) = ErroredIgnored \<and>
     ExitCode (runOutcome run) = code \<and>
     Results (runOutcome run) = results \<and>
     markerWritten run \<and> i \<in> markers' \<and>
     waitSatisfied markers' (Suc i) \<and>
     platformExitCode run = 0"
  by (simp add: wrapperStep_def waitSatisfied_def)

theorem continue_ignores_nonzero_exit_witness:
  "(11::int) \<noteq> 0 \<and> waitSatisfied {0} 1 \<and>
   (\<exists>markers' run.
      wrapperStep {0} 1 Continue (Exited 11) [(''task1-result'', ''123'')] =
        Some (markers', run) \<and>
      Reason (runOutcome run) = ErroredIgnored \<and>
      ExitCode (runOutcome run) = 11 \<and>
      Results (runOutcome run) = [(''task1-result'', ''123'')] \<and>
      markerWritten run \<and> 1 \<in> markers' \<and>
      waitSatisfied markers' (Suc 1) \<and>
      platformExitCode run = 0)"
proof -
  have c: "(11::int) \<noteq> 0" by simp
  have w: "waitSatisfied {0} 1" by (simp add: waitSatisfied_def)
  show ?thesis
    using c w continue_ignores_nonzero_exit[OF c w, of "[(''task1-result'', ''123'')]"]
    by simp
qed

text \<open>
  Claim C9. Encoding a step outcome whose encoded payload would exceed 4096 bytes fails
  with the length error, which is no step-execution failure and no cancellation, and
  returns no payload at all, truncated or not; a payload within the ceiling is returned
  whole.
\<close>

theorem oversize_payload_is_length_error:
  "length (serialise outcome) > 4096 \<Longrightarrow>
   Encode serialise outcome = Inl (LengthError errTooLong) \<and>
   (\<forall>code. Encode serialise outcome \<noteq> Inl (StepFailed code)) \<and>
   Encode serialise outcome \<noteq> Inl Cancelled \<and>
   (\<forall>payload. Encode serialise outcome \<noteq> Inr payload) \<and>
   Error errTooLong =
     ''Termination message is above max allowed size 4096, caused by large task result.''"
  by (simp add: Encode_def maxTerminationMessageSize_def errTooLong_def)

theorem oversize_payload_is_length_error_witness:
  "length (concat (map snd (Results
      \<lparr>ExitCode = 0, Reason = Completed, Results = [(''big'', replicate 4097 (CHR ''a''))],
       Message = []\<rparr>))) > 4096 \<and>
   Encode (\<lambda>outcome. concat (map snd (Results outcome)))
      \<lparr>ExitCode = 0, Reason = Completed, Results = [(''big'', replicate 4097 (CHR ''a''))],
       Message = []\<rparr> = Inl (LengthError errTooLong)"
proof -
  let ?o = "\<lparr>ExitCode = 0, Reason = Completed,
             Results = [(''big'', replicate 4097 (CHR ''a''))], Message = []\<rparr>"
  have h: "length ((\<lambda>outcome. concat (map snd (Results outcome))) ?o) > 4096" by simp
  show ?thesis
    using h oversize_payload_is_length_error[of "\<lambda>outcome. concat (map snd (Results outcome))" ?o]
    by simp
qed

section \<open>The resource floor\<close>

lemma qty_update: "qty (AList.update k v m) r = (if r = k then v else qty m r)"
  by (simp add: qty_def update_conv')

lemma qty_raiseMin:
  "qty (raiseMin mn (k, v)) r = (if r = k then max (qty mn k) v else qty mn r)"
  by (simp add: raiseMin_def qty_update)

lemma qty_fold_raiseMin:
  "qty (fold (\<lambda>kv acc. raiseMin acc kv) kvs z) k =
     fold max (map snd (filter (\<lambda>kv. fst kv = k) kvs)) (qty z k)"
proof (induction kvs arbitrary: z)
  case Nil
  then show ?case by simp
next
  case (Cons kv kvs)
  obtain k' v' where kv: "kv = (k', v')" by (cases kv)
  show ?case
    by (simp add: kv Cons.IH qty_raiseMin max.commute)
qed

lemma fold_itemMinimum:
  "fold itemMinimum items z =
     fold (\<lambda>kv acc. raiseMin acc kv)
       (concat (map (\<lambda>lrItem. case lriMin lrItem of None \<Rightarrow> [] | Some m \<Rightarrow> m)
                  (filter (\<lambda>lrItem. lriType lrItem = LimitTypeContainer) items))) z"
  by (induction items arbitrary: z) (simp_all add: itemMinimum_def split: option.splits)

lemma fold_limitRanges:
  "fold (\<lambda>lr mn. fold itemMinimum (lrLimits lr) mn) limitRanges z =
     fold (\<lambda>kv acc. raiseMin acc kv) (containerMinimums limitRanges) z"
  by (induction limitRanges arbitrary: z) (simp_all add: containerMinimums_def fold_itemMinimum)

lemma fold_max_Max: "fold max xs (x::int) = Max (insert x (set xs))"
  using Max.set_eq_fold[of x xs] by simp

lemma declared_set:
  "snd ` {x \<in> set kvs. fst x = k} = {v. (k, v) \<in> set kvs}"
  by force

lemma getLimitRangeMinimum_qty:
  assumes "listLimitRanges d namespace = Inr limitRanges"
  shows "\<exists>floor. getLimitRangeMinimum d namespace = Inr floor \<and>
           (\<forall>k. qty floor k =
                 Max (insert (qty (allZeroQty d) k)
                        {v. (k, v) \<in> set (containerMinimums limitRanges)}))"
  using assms
  by (simp add: getLimitRangeMinimum_def fold_limitRanges qty_fold_raiseMin fold_max_Max
      declared_set)

lemma qty_all_zero: "list_all (\<lambda>kv. snd kv = 0) z \<Longrightarrow> qty z k = 0"
  by (induction z) (auto simp: qty_def)

lemma qty_fold_raiseRequest:
  "qty (fold (raiseRequest floor) ks rq) r =
     (if r \<in> set ks then max (qty rq r) (qty floor r) else qty rq r)"
proof (induction ks arbitrary: rq)
  case Nil
  then show ?case by simp
next
  case (Cons k ks)
  have step: "qty (raiseRequest floor k rq) x =
                (if x = k then max (qty rq x) (qty floor x) else qty rq x)" for x
    by (simp add: raiseRequest_def qty_update)
  show ?case by (simp add: Cons.IH step)
qed

lemma qty_absent: "r \<notin> fst ` set m \<Longrightarrow> qty m r = 0"
  by (simp add: qty_def map_of_eq_None_iff[THEN iffD2])

lemma qty_applyFloor:
  "qty (Requests (Resources (applyFloor floor c))) r =
     max (qty (Requests (Resources c)) r) (qty floor r)"
proof (cases "r \<in> fst ` set floor \<union> fst ` set (Requests (Resources c))")
  case True
  then show ?thesis by (auto simp: applyFloor_def qty_fold_raiseRequest)
next
  case False
  then have "qty floor r = 0" "qty (Requests (Resources c)) r = 0"
    by (simp_all add: qty_absent)
  with False show ?thesis by (simp add: applyFloor_def qty_fold_raiseRequest)
qed

lemma fold_raiseRequest_same:
  "list_all (\<lambda>k. qty floor k \<le> qty rq k) ks \<Longrightarrow> fold (raiseRequest floor) ks rq = rq"
  by (induction ks) (simp_all add: raiseRequest_def)

lemma applyFloor_frame:
  "Limits (Resources (applyFloor floor c)) = Limits (Resources c)"
  "Env (applyFloor floor c) = Env c"
  "VolumeMounts (applyFloor floor c) = VolumeMounts c"
  "Name (applyFloor floor c) = Name c"
  "WorkingDir (applyFloor floor c) = WorkingDir c"
  by (simp_all add: applyFloor_def)

lemma floor0:
  "getLimitRangeMinimum deps0 ''ns'' =
     Inr [(''cpu'', 250), (''memory'', 0), (''ephemeral-storage'', 0)]"
  by (simp add: getLimitRangeMinimum_def deps0_def limitRanges0_def itemMinimum_def
      raiseMin_def qty_def)

text \<open>
  Claim C3. When the helper \<open>allZeroQty\<close> gives zero quantities, the floor that
  \<open>getLimitRangeMinimum\<close> resolves is, for every resource name, the maximum of zero
  and of all container minimums the namespace's limit ranges declare for that name; and
  applying a floor to a container leaves each request at the maximum of the request and
  the floor. The witness below is the example of the claim: declarations of 100m and
  250m CPU give a floor of 250m, a request of 50m becomes 250m and a request of 300m
  stays.
\<close>

theorem floor_is_pointwise_maximum:
  assumes "list_all (\<lambda>kv. snd kv = 0) (allZeroQty d)"
    and "listLimitRanges d namespace = Inr limitRanges"
  shows "\<exists>floor. getLimitRangeMinimum d namespace = Inr floor \<and>
           (\<forall>k. qty floor k =
                 Max (insert 0 {v. (k, v) \<in> set (containerMinimums limitRanges)})) \<and>
           (\<forall>c k. qty (Requests (Resources (applyFloor floor c))) k =
                   max (qty (Requests (Resources c)) k) (qty floor k))"
  using getLimitRangeMinimum_qty[OF assms(2)] qty_all_zero[OF assms(1)]
  by (auto simp: qty_applyFloor)

theorem floor_is_pointwise_maximum_witness:
  "list_all (\<lambda>kv. snd kv = 0) (allZeroQty deps0) \<and>
   listLimitRanges deps0 ''ns'' = Inr limitRanges0 \<and>
   containerMinimums limitRanges0 = [(''cpu'', 100), (''cpu'', 250)] \<and>
   (\<exists>floor. getLimitRangeMinimum deps0 ''ns'' = Inr floor \<and>
      qty floor ''cpu'' = 250 \<and>
      qty floor ''cpu'' = Max (insert 0 {v. (''cpu'', v) \<in> set (containerMinimums limitRanges0)}) \<and>
      Requests (Resources (Container.truncate stepA)) = [(''cpu'', 50)] \<and>
      qty (Requests (Resources (applyFloor floor (Container.truncate stepA)))) ''cpu'' = 250 \<and>
      Requests (Resources (Container.truncate stepB)) = [(''cpu'', 300)] \<and>
      qty (Requests (Resources (applyFloor floor (Container.truncate stepB)))) ''cpu'' = 300 \<and>
      Requests (Resources (applyFloor floor (Container.truncate stepB))) = [(''cpu'', 300)])"
proof -
  have z: "list_all (\<lambda>kv. snd kv = 0) (allZeroQty deps0)"
    by (simp add: deps0_def)
  have l: "listLimitRanges deps0 ''ns'' = Inr limitRanges0"
    by (simp add: deps0_def)
  have m: "containerMinimums limitRanges0 = [(''cpu'', 100), (''cpu'', 250)]"
    by (simp add: containerMinimums_def limitRanges0_def)
  from floor_is_pointwise_maximum[OF z l] floor0
  have f: "\<forall>k. qty [(''cpu'', 250), (''memory'', 0), (''ephemeral-storage'', 0)] k =
                Max (insert 0 {v. (k, v) \<in> set (containerMinimums limitRanges0)})"
    and a: "\<forall>c k. qty (Requests (Resources
                (applyFloor [(''cpu'', 250), (''memory'', 0), (''ephemeral-storage'', 0)] c))) k =
              max (qty (Requests (Resources c)) k)
                  (qty [(''cpu'', 250), (''memory'', 0), (''ephemeral-storage'', 0)] k)"
    by auto
  have q: "qty [(''cpu'', 250), (''memory'', 0), (''ephemeral-storage'', 0)] ''cpu'' = 250"
    by (simp add: qty_def)
  have ra: "Requests (Resources (Container.truncate stepA)) = [(''cpu'', 50)]"
    and rb: "Requests (Resources (Container.truncate stepB)) = [(''cpu'', 300)]"
    by (simp_all add: stepA_def stepB_def Container.truncate_def)
  have sb: "Requests (Resources
              (applyFloor [(''cpu'', 250), (''memory'', 0), (''ephemeral-storage'', 0)]
                 (Container.truncate stepB))) = [(''cpu'', 300)]"
    by (simp add: applyFloor_def rb raiseRequest_def qty_def)
  show ?thesis
    using z l m floor0 f[rule_format, of "''cpu''"] q ra rb sb
      a[rule_format, of "Container.truncate stepA" "''cpu''"]
      a[rule_format, of "Container.truncate stepB" "''cpu''"]
    by (simp add: qty_def)
qed

section \<open>What a successful \<open>Build\<close> returns\<close>

lemma addImplicitEnvVars_map:
  "addImplicitEnvVars e cs = map (\<lambda>s. s\<lparr>Env := e @ Env s\<rparr>) cs"
  by (cases e) (simp_all add: addImplicitEnvVars_def map_idI)

lemma addHermeticEnvVar_map:
  "addHermeticEnvVar d ctx tr cs = map (\<lambda>s. s\<lparr>Env := Env s @ hermeticEnv d ctx tr\<rparr>) cs"
  by (simp add: addHermeticEnvVar_def hermeticEnv_def alphaAPIEnabled_def map_idI)

lemma Build_success:
  "Build d b ctx tr ts = (tr', Inr pod) \<Longrightarrow>
   \<exists>l0 l. Build_prepare d b ctx tr ts = Inr l0 \<and> Build_steps d ctx tr l0 = Inr l \<and>
          Build_pod d ctx tr ts l = (tr', Inr pod)"
  by (auto simp: Build_def split: sum.splits)

lemma Build_pod_success:
  assumes "Build_pod d ctx tr ts l = (tr', Inr pod)"
  shows "podContainers pod =
           stepContainers l @
           map (\<lambda>sc. sc\<lparr>Name := RestrictLength d (sidecarPrefix d @ Name sc)\<rparr>)
             (sidecarContainers l)"
    and "podAffinity pod =
           selectAffinity d tr (case trPodTemplate tr of None \<Rightarrow> emptyTemplate | Some t \<Rightarrow> t)"
    and "podVolumes pod =
           volumes l @ tsVolumes ts @
           ptVolumes (case trPodTemplate tr of None \<Rightarrow> emptyTemplate | Some t \<Rightarrow> t)"
  using assms
  by (auto simp: Build_pod_def Let_def split: option.splits sum.splits)

lemma Build_steps_success:
  assumes "Build_steps d ctx tr l0 = Inr l"
  shows "\<exists>floor. getLimitRangeMinimum d (trNamespace tr) = Inr floor \<and>
           length (stepContainers l) = length (stepContainers l0) \<and>
           sidecarContainers l = sidecarContainers l0 \<and>
           volumes l = volumes l0 @
                       concat (map (credsVolumeOf d ctx) [0 ..< length (stepContainers l0)]) \<and>
           (\<forall>i < length (stepContainers l0).
              stepContainers l ! i =
                nameStep d ctx i
                  (addVolumeMounts d ctx (volumeMounts l0) i
                    ((applyFloor floor (stepContainers l0 ! i))
                       \<lparr>Env := implicitEnvVars l0 @ Env (stepContainers l0 ! i) @
                               hermeticEnv d ctx tr\<rparr>)))"
proof -
  from assms obtain floor where f: "getLimitRangeMinimum d (trNamespace tr) = Inr floor"
    by (auto simp: Build_steps_def split: sum.splits)
  let ?w = "addHermeticEnvVar d ctx tr
              (addImplicitEnvVars (implicitEnvVars l0)
                (resolveResourceRequests (stepContainers l0) floor))"
  let ?m = "map (\<lambda>(i, s). addVolumeMounts d ctx (volumeMounts l0) i s) (enumerate 0 ?w)"
  have lw: "length ?w = length (stepContainers l0)"
    by (simp add: addHermeticEnvVar_map addImplicitEnvVars_map resolveResourceRequests_def)
  have l: "l = l0\<lparr>stepContainers := map (\<lambda>(i, s). nameStep d ctx i s) (enumerate 0 ?m),
                  volumes := volumes l0 @ concat (map (credsVolumeOf d ctx) [0 ..< length ?w])\<rparr>"
    using assms f by (simp add: Build_steps_def Let_def)
  have w: "?w ! i = (applyFloor floor (stepContainers l0 ! i))
                       \<lparr>Env := implicitEnvVars l0 @ Env (stepContainers l0 ! i) @
                               hermeticEnv d ctx tr\<rparr>"
    if "i < length (stepContainers l0)" for i
    using that
    by (simp add: addHermeticEnvVar_map addImplicitEnvVars_map resolveResourceRequests_def
        applyFloor_frame)
  have n: "stepContainers l ! i =
             nameStep d ctx i (addVolumeMounts d ctx (volumeMounts l0) i (?w ! i))"
    if "i < length (stepContainers l0)" for i
  proof -
    have "i < length ?m" using that lw by simp
    then have "stepContainers l ! i = nameStep d ctx i (?m ! i)"
      by (subst l) (simp add: nth_enumerate_eq)
    moreover have "?m ! i = addVolumeMounts d ctx (volumeMounts l0) i (?w ! i)"
      using that lw by (simp add: nth_enumerate_eq)
    ultimately show ?thesis by simp
  qed
  have "length (stepContainers l) = length (stepContainers l0)"
    by (subst l) (simp add: lw)
  moreover have "sidecarContainers l = sidecarContainers l0" by (subst l) simp
  moreover have "volumes l = volumes l0 @
                       concat (map (credsVolumeOf d ctx) [0 ..< length (stepContainers l0)])"
    by (subst l) (simp add: lw)
  ultimately show ?thesis using f n w by auto
qed

lemma Build_prepare_success:
  assumes "Build_prepare d b ctx tr ts = Inr l0"
  shows "implicitEnvVars l0 =
           (if OverrideHomeEnv b then [\<lparr>EnvName = ''HOME'', EnvValue = HomeDir\<rparr>] else [])"
    and "\<exists>credVolumeMounts. volumeMounts l0 = implicitVolumeMounts @ credVolumeMounts"
  using assms
  by (auto simp: Build_prepare_def split: sum.splits prod.splits if_splits)

text \<open>Step \<open>i\<close> of the pod, in terms of the step \<open>orderContainers\<close> returned.\<close>

lemma Build_step:
  assumes prep: "Build_prepare d b ctx tr ts = Inr l0"
    and build: "Build d b ctx tr ts = (tr', Inr pod)"
    and i: "i < length (stepContainers l0)"
  shows "\<exists>floor. getLimitRangeMinimum d (trNamespace tr) = Inr floor \<and>
           podContainers pod ! i =
             nameStep d ctx i
               (addVolumeMounts d ctx (volumeMounts l0) i
                 ((applyFloor floor (stepContainers l0 ! i))
                    \<lparr>Env := implicitEnvVars l0 @ Env (stepContainers l0 ! i) @
                            hermeticEnv d ctx tr\<rparr>))"
proof -
  from Build_success[OF build] prep obtain l
    where s: "Build_steps d ctx tr l0 = Inr l" and p: "Build_pod d ctx tr ts l = (tr', Inr pod)"
    by auto
  from Build_steps_success[OF s] obtain floor
    where f: "getLimitRangeMinimum d (trNamespace tr) = Inr floor"
      and len: "length (stepContainers l) = length (stepContainers l0)"
      and nth: "\<forall>i < length (stepContainers l0).
              stepContainers l ! i =
                nameStep d ctx i
                  (addVolumeMounts d ctx (volumeMounts l0) i
                    ((applyFloor floor (stepContainers l0 ! i))
                       \<lparr>Env := implicitEnvVars l0 @ Env (stepContainers l0 ! i) @
                               hermeticEnv d ctx tr\<rparr>))"
    by blast
  have "podContainers pod ! i = stepContainers l ! i"
    using Build_pod_success(1)[OF p] i len by (simp add: nth_append)
  with f nth i show ?thesis by auto
qed


subsection \<open>The concrete run\<close>

lemmas constants =
  TektonHermeticEnvVar_def ExecutionModeAnnotation_def ExecutionModeHermetic_def
  ReleaseAnnotation_def WorkspaceDir_def DefaultResultPath_def HomeDir_def StepsDir_def
  implicitVolumeMounts_def implicitVolumes_def

lemma prepare0: "Build_prepare deps0 builder0 ctx0 taskRun0 taskSpec0 = Inr locals0"
  by (simp add: Build_prepare_def deps0_def builder0_def ctx0_def taskRun0_def taskSpec0_def
      locals0_def alphaAPIEnabled_def constants stepA_def stepB_def sidecar0_def
      Container.truncate_def)

lemma steps0:
  "Build_steps deps0 ctx0 taskRun0 locals0 =
     Inr (locals0\<lparr>stepContainers := [podStepA, podStepB],
                  volumes := volumes locals0 @
                    [\<lparr>VolumeName = ''tekton-creds-init-home-0'', VolumeSource = EmptyDir\<rparr>,
                     \<lparr>VolumeName = ''tekton-creds-init-home-1'', VolumeSource = EmptyDir\<rparr>]\<rparr>)"
  by code_simp

lemma pod0_step:
  "Build_pod deps0 ctx0 taskRun0 taskSpec0
     (locals0\<lparr>stepContainers := [podStepA, podStepB],
              volumes := volumes locals0 @
                [\<lparr>VolumeName = ''tekton-creds-init-home-0'', VolumeSource = EmptyDir\<rparr>,
                 \<lparr>VolumeName = ''tekton-creds-init-home-1'', VolumeSource = EmptyDir\<rparr>]\<rparr>) =
     (taskRun0\<lparr>trAnnotations := Some annotations0\<rparr>, Inr pod0)"
  by (simp add: Build_pod_def Let_def pod0_def annotations0_def
      shouldAddReadyAnnotationOnPodCreate_def selectAffinity_def annotationOf_def
      makeLabels_def NewControllerRef_def emptyTemplate_def
      deps0_def ctx0_def taskRun0_def taskSpec0_def locals0_def podSidecar0_def sidecar0_def
      Container.truncate_def constants)

lemma build0:
  "Build deps0 builder0 ctx0 taskRun0 taskSpec0 =
     (taskRun0\<lparr>trAnnotations := Some annotations0\<rparr>, Inr pod0)"
  by (simp add: Build_def prepare0 steps0 pod0_step)

section \<open>Resource requests after \<open>Build\<close>\<close>

lemma Resources_nameStep: "Resources (nameStep d ctx i s) = Resources s"
  by (simp add: nameStep_def)

lemma Resources_addVolumeMounts: "Resources (addVolumeMounts d ctx vms i s) = Resources s"
  by (simp add: addVolumeMounts_def Let_def)

lemma locals0_steps:
  "length (stepContainers locals0) = 2"
  "stepContainers locals0 ! 0 = Container.truncate stepA"
  "stepContainers locals0 ! 1 = Container.truncate stepB"
  "sidecarContainers locals0 = [Container.truncate sidecar0]"
  by (simp_all add: locals0_def)

lemma pod0_containers: "podContainers pod0 = [podStepA, podStepB, podSidecar0]"
  by (simp add: pod0_def)

text \<open>
  Claim C1. In the pod a successful \<open>Build\<close> returns, the request of every step for
  every resource is the maximum of the request the step had when the floor was applied
  and of the floor \<open>getLimitRangeMinimum\<close> resolved, so no request is lowered; a step
  all of whose requests are at or above the floor keeps its requests as they are, and
  every step keeps its limits.
\<close>

theorem floor_never_lowers_requests:
  assumes "Build_prepare d b ctx tr ts = Inr l0"
    and "Build d b ctx tr ts = (tr', Inr pod)"
    and "i < length (stepContainers l0)"
  shows "\<exists>floor. getLimitRangeMinimum d (trNamespace tr) = Inr floor \<and>
           (\<forall>r. qty (Requests (Resources (podContainers pod ! i))) r =
                 max (qty (Requests (Resources (stepContainers l0 ! i))) r) (qty floor r)) \<and>
           (\<forall>r. qty (Requests (Resources (stepContainers l0 ! i))) r \<le>
                 qty (Requests (Resources (podContainers pod ! i))) r) \<and>
           ((\<forall>r. qty floor r \<le> qty (Requests (Resources (stepContainers l0 ! i))) r) \<longrightarrow>
              Requests (Resources (podContainers pod ! i)) =
              Requests (Resources (stepContainers l0 ! i))) \<and>
           Limits (Resources (podContainers pod ! i)) =
           Limits (Resources (stepContainers l0 ! i))"
proof -
  from Build_step[OF assms] obtain floor
    where f: "getLimitRangeMinimum d (trNamespace tr) = Inr floor"
      and c: "podContainers pod ! i =
             nameStep d ctx i
               (addVolumeMounts d ctx (volumeMounts l0) i
                 ((applyFloor floor (stepContainers l0 ! i))
                    \<lparr>Env := implicitEnvVars l0 @ Env (stepContainers l0 ! i) @
                            hermeticEnv d ctx tr\<rparr>))"
    by blast
  have r: "Resources (podContainers pod ! i) = Resources (applyFloor floor (stepContainers l0 ! i))"
    by (simp add: c Resources_nameStep Resources_addVolumeMounts)
  have same: "Requests (Resources (applyFloor floor (stepContainers l0 ! i))) =
              Requests (Resources (stepContainers l0 ! i))"
    if "\<forall>r. qty floor r \<le> qty (Requests (Resources (stepContainers l0 ! i))) r"
    using that by (simp add: applyFloor_def fold_raiseRequest_same list_all_iff)
  show ?thesis
    using f same by (auto simp: r qty_applyFloor applyFloor_frame)
qed

theorem floor_never_lowers_requests_witness:
  "Build_prepare deps0 builder0 ctx0 taskRun0 taskSpec0 = Inr locals0 \<and>
   Build deps0 builder0 ctx0 taskRun0 taskSpec0 =
     (taskRun0\<lparr>trAnnotations := Some annotations0\<rparr>, Inr pod0) \<and>
   (0::nat) < length (stepContainers locals0) \<and>
   (\<exists>floor. getLimitRangeMinimum deps0 (trNamespace taskRun0) = Inr floor \<and>
      qty floor ''cpu'' = 250 \<and>
      qty (Requests (Resources (stepContainers locals0 ! 0))) ''cpu'' = 50 \<and>
      qty (Requests (Resources (podContainers pod0 ! 0))) ''cpu'' =
        max (qty (Requests (Resources (stepContainers locals0 ! 0))) ''cpu'') (qty floor ''cpu'') \<and>
      qty (Requests (Resources (podContainers pod0 ! 0))) ''cpu'' = 250 \<and>
      Limits (Resources (podContainers pod0 ! 0)) = [(''cpu'', 500)] \<and>
      Limits (Resources (stepContainers locals0 ! 0)) = [(''cpu'', 500)])"
proof -
  have i: "(0::nat) < length (stepContainers locals0)"
    by (simp add: locals0_steps)
  have ns: "trNamespace taskRun0 = ''ns''"
    by (simp add: taskRun0_def)
  from floor_never_lowers_requests[OF prepare0 build0 i]
  have m: "qty (Requests (Resources (podContainers pod0 ! 0))) ''cpu'' =
           max (qty (Requests (Resources (stepContainers locals0 ! 0))) ''cpu'')
               (qty [(''cpu'', 250), (''memory'', 0), (''ephemeral-storage'', 0)] ''cpu'')"
    by (auto simp: ns floor0)
  have q: "qty (Requests (Resources (stepContainers locals0 ! 0))) ''cpu'' = 50"
    "Limits (Resources (stepContainers locals0 ! 0)) = [(''cpu'', 500)]"
    by (simp_all add: locals0_steps stepA_def Container.truncate_def qty_def)
  have p: "Limits (Resources (podContainers pod0 ! 0)) = [(''cpu'', 500)]"
    by (simp add: pod0_containers podStepA_def)
  show ?thesis
    using prepare0 build0 i m q p by (simp add: ns floor0 qty_def)
qed

section \<open>Scheduling affinity\<close>

text \<open>
  Claim C5. The affinity of the pod a successful \<open>Build\<close> returns has one source. When
  the task run's affinity assistant annotation is not empty, it is the pod affinity that
  requires, at the topology of the host name, a pod whose labels match the assistant's
  instance and component exactly, with no node affinity, no anti-affinity and nothing of
  the affinity the pod template declares; otherwise it is the pod template's affinity as
  it stands (none when there is no pod template).
\<close>

theorem affinity_has_one_source:
  "Build d b ctx tr ts = (tr', Inr pod) \<Longrightarrow>
   podAffinity pod =
     (if annotationOf tr (AnnotationAffinityAssistantName d) \<noteq> []
      then Some
        \<lparr>affNodeAffinity = None,
         affPodAffinity = Some
           \<lparr>paRequiredDuringSchedulingIgnoredDuringExecution =
              [\<lparr>patLabelSelector = Some
                  \<lparr>lsMatchLabels =
                     [LabelInstance d \<mapsto> annotationOf tr (AnnotationAffinityAssistantName d),
                      LabelComponent d \<mapsto> ComponentNameAffinityAssistant d],
                   lsMatchExpressions = []\<rparr>,
                patNamespaces = [],
                patTopologyKey = ''kubernetes.io/hostname''\<rparr>],
            paPreferredDuringSchedulingIgnoredDuringExecution = []\<rparr>,
         affPodAntiAffinity = None\<rparr>
      else (case trPodTemplate tr of None \<Rightarrow> None | Some t \<Rightarrow> ptAffinity t))"
proof -
  assume build: "Build d b ctx tr ts = (tr', Inr pod)"
  from Build_success[OF build] obtain l where "Build_pod d ctx tr ts l = (tr', Inr pod)"
    by blast
  from Build_pod_success(2)[OF this] show ?thesis
    by (simp add: selectAffinity_def nodeAffinityUsingAffinityAssistant_def emptyTemplate_def
        split: option.splits)
qed

theorem affinity_has_one_source_witness:
  "Build deps0 builder0 ctx0 taskRun0 taskSpec0 =
     (taskRun0\<lparr>trAnnotations := Some annotations0\<rparr>, Inr pod0) \<and>
   annotationOf taskRun0 (AnnotationAffinityAssistantName deps0) = ''assistant-1'' \<and>
   trPodTemplate taskRun0 = Some (emptyTemplate\<lparr>ptAffinity := Some userAffinity0\<rparr>) \<and>
   podAffinity pod0 = Some
     \<lparr>affNodeAffinity = None,
      affPodAffinity = Some
        \<lparr>paRequiredDuringSchedulingIgnoredDuringExecution =
           [\<lparr>patLabelSelector = Some
               \<lparr>lsMatchLabels =
                  [''app.kubernetes.io/instance'' \<mapsto> ''assistant-1'',
                   ''app.kubernetes.io/component'' \<mapsto> ''affinity-assistant''],
                lsMatchExpressions = []\<rparr>,
             patNamespaces = [],
             patTopologyKey = ''kubernetes.io/hostname''\<rparr>],
         paPreferredDuringSchedulingIgnoredDuringExecution = []\<rparr>,
      affPodAntiAffinity = None\<rparr>"
proof -
  have a: "annotationOf taskRun0 (AnnotationAffinityAssistantName deps0) = ''assistant-1''"
    by (simp add: annotationOf_def taskRun0_def deps0_def constants)
  have t: "trPodTemplate taskRun0 = Some (emptyTemplate\<lparr>ptAffinity := Some userAffinity0\<rparr>)"
    by (simp add: taskRun0_def)
  have d: "LabelInstance deps0 = ''app.kubernetes.io/instance''"
    "LabelComponent deps0 = ''app.kubernetes.io/component''"
    "ComponentNameAffinityAssistant deps0 = ''affinity-assistant''"
    by (simp_all add: deps0_def)
  show ?thesis
    using build0 a t affinity_has_one_source[OF build0] by (simp add: d)
qed

section \<open>Environment variables of the steps\<close>

lemma Env_nameStep: "Env (nameStep d ctx i s) = Env s"
  by (simp add: nameStep_def)

lemma Env_addVolumeMounts: "Env (addVolumeMounts d ctx vms i s) = Env s"
  by (simp add: addVolumeMounts_def Let_def)

lemma Build_step_Env:
  assumes "Build_prepare d b ctx tr ts = Inr l0"
    and "Build d b ctx tr ts = (tr', Inr pod)"
    and "i < length (stepContainers l0)"
  shows "Env (podContainers pod ! i) =
           implicitEnvVars l0 @ Env (stepContainers l0 ! i) @ hermeticEnv d ctx tr"
proof -
  from Build_step[OF assms] obtain floor
    where "podContainers pod ! i =
             nameStep d ctx i
               (addVolumeMounts d ctx (volumeMounts l0) i
                 ((applyFloor floor (stepContainers l0 ! i))
                    \<lparr>Env := implicitEnvVars l0 @ Env (stepContainers l0 ! i) @
                            hermeticEnv d ctx tr\<rparr>))"
    by blast
  then show ?thesis by (simp add: Env_nameStep Env_addVolumeMounts)
qed

lemma effectiveEnv_append:
  "effectiveEnv (xs @ ys) name =
     (case effectiveEnv ys name of None \<Rightarrow> effectiveEnv xs name | Some v \<Rightarrow> Some v)"
  by (simp add: effectiveEnv_def map_add_def split: option.splits)

lemma effectiveEnv_single:
  "effectiveEnv [\<lparr>EnvName = n, EnvValue = v\<rparr>] name = (if name = n then Some v else None)"
  by (simp add: effectiveEnv_def)

lemma effectiveEnv_Nil: "effectiveEnv [] name = None"
  by (simp add: effectiveEnv_def)

text \<open>
  Claim C6, as the code has it. In the pod a successful \<open>Build\<close> returns, the variables
  of every step are the injected HOME default (when the builder overrides HOME), then
  the variables the step had, then TEKTON_HERMETIC=1 (when hermetic mode is requested
  and the alpha fields are enabled). The injected HOME stands before the step's own
  variables, so a HOME the step declares is the later one and is the one in effect; the
  hermetic variable stands after them and is the one in effect even when the step
  declares a variable of that name.
\<close>

theorem implicit_env_first_hermetic_last:
  assumes "Build_prepare d b ctx tr ts = Inr l0"
    and "Build d b ctx tr ts = (tr', Inr pod)"
    and "i < length (stepContainers l0)"
  shows "Env (podContainers pod ! i) =
           (if OverrideHomeEnv b then [\<lparr>EnvName = ''HOME'', EnvValue = HomeDir\<rparr>] else []) @
           Env (stepContainers l0 ! i) @
           (if annotationOf tr ExecutionModeAnnotation = ExecutionModeHermetic \<and>
               EnableAPIFields ctx = AlphaAPIFields d
            then [\<lparr>EnvName = TektonHermeticEnvVar, EnvValue = ''1''\<rparr>] else []) \<and>
         (\<forall>v. effectiveEnv (Env (stepContainers l0 ! i)) ''HOME'' = Some v \<longrightarrow>
              effectiveEnv (Env (podContainers pod ! i)) ''HOME'' = Some v) \<and>
         (annotationOf tr ExecutionModeAnnotation = ExecutionModeHermetic \<and>
          EnableAPIFields ctx = AlphaAPIFields d \<longrightarrow>
            effectiveEnv (Env (podContainers pod ! i)) TektonHermeticEnvVar = Some ''1'')"
proof -
  have e: "Env (podContainers pod ! i) =
           (if OverrideHomeEnv b then [\<lparr>EnvName = ''HOME'', EnvValue = HomeDir\<rparr>] else []) @
           Env (stepContainers l0 ! i) @
           (if annotationOf tr ExecutionModeAnnotation = ExecutionModeHermetic \<and>
               EnableAPIFields ctx = AlphaAPIFields d
            then [\<lparr>EnvName = TektonHermeticEnvVar, EnvValue = ''1''\<rparr>] else [])"
    using Build_step_Env[OF assms] Build_prepare_success(1)[OF assms(1)]
    by (simp add: hermeticEnv_def)
  have n: "TektonHermeticEnvVar \<noteq> ''HOME''"
    by (simp add: TektonHermeticEnvVar_def)
  show ?thesis
    unfolding e using n
    by (auto simp: effectiveEnv_append effectiveEnv_single effectiveEnv_Nil
        split: option.splits)
qed

theorem implicit_env_first_hermetic_last_witness:
  "Build_prepare deps0 builder0 ctx0 taskRun0 taskSpec0 = Inr locals0 \<and>
   Build deps0 builder0 ctx0 taskRun0 taskSpec0 =
     (taskRun0\<lparr>trAnnotations := Some annotations0\<rparr>, Inr pod0) \<and>
   (0::nat) < length (stepContainers locals0) \<and>
   Env (stepContainers locals0 ! 0) =
     [\<lparr>EnvName = ''HOME'', EnvValue = ''/root''\<rparr>,
      \<lparr>EnvName = ''TEKTON_HERMETIC'', EnvValue = ''0''\<rparr>] \<and>
   Env (podContainers pod0 ! 0) =
     [\<lparr>EnvName = ''HOME'', EnvValue = ''/tekton/home''\<rparr>,
      \<lparr>EnvName = ''HOME'', EnvValue = ''/root''\<rparr>,
      \<lparr>EnvName = ''TEKTON_HERMETIC'', EnvValue = ''0''\<rparr>,
      \<lparr>EnvName = ''TEKTON_HERMETIC'', EnvValue = ''1''\<rparr>] \<and>
   effectiveEnv (Env (podContainers pod0 ! 0)) ''HOME'' = Some ''/root'' \<and>
   effectiveEnv (Env (podContainers pod0 ! 0)) TektonHermeticEnvVar = Some ''1''"
proof -
  have i: "(0::nat) < length (stepContainers locals0)"
    by (simp add: locals0_steps)
  have u: "Env (stepContainers locals0 ! 0) =
     [\<lparr>EnvName = ''HOME'', EnvValue = ''/root''\<rparr>,
      \<lparr>EnvName = ''TEKTON_HERMETIC'', EnvValue = ''0''\<rparr>]"
    by (simp add: locals0_steps stepA_def Container.truncate_def)
  have c: "OverrideHomeEnv builder0"
    "annotationOf taskRun0 ExecutionModeAnnotation = ExecutionModeHermetic"
    "EnableAPIFields ctx0 = AlphaAPIFields deps0"
    by (simp_all add: builder0_def annotationOf_def taskRun0_def ctx0_def deps0_def constants)
  have h: "effectiveEnv (Env (stepContainers locals0 ! 0)) ''HOME'' = Some ''/root''"
    by (simp add: u effectiveEnv_def)
  show ?thesis
    using prepare0 build0 i u h implicit_env_first_hermetic_last[OF prepare0 build0 i]
    by (simp add: c HomeDir_def TektonHermeticEnvVar_def effectiveEnv_def)
qed

text \<open>Claim C6 as stated fails: in the concrete run the step declares HOME, and in the
  pod the injected HOME stands first and the step's HOME behind it.\<close>

theorem user_HOME_after_injected_counterexample:
  "snd (Build deps0 builder0 ctx0 taskRun0 taskSpec0) = Inr pod0 \<and>
   Env (hd (tsSteps taskSpec0)) ! 0 = \<lparr>EnvName = ''HOME'', EnvValue = ''/root''\<rparr> \<and>
   Env (podContainers pod0 ! 0) ! 0 = \<lparr>EnvName = ''HOME'', EnvValue = ''/tekton/home''\<rparr> \<and>
   Env (podContainers pod0 ! 0) ! 1 = \<lparr>EnvName = ''HOME'', EnvValue = ''/root''\<rparr>"
proof -
  have 1: "snd (Build deps0 builder0 ctx0 taskRun0 taskSpec0) = Inr pod0"
    by (simp add: build0)
  have 2: "Env (hd (tsSteps taskSpec0)) ! 0 = \<lparr>EnvName = ''HOME'', EnvValue = ''/root''\<rparr>"
    by (simp add: taskSpec0_def stepA_def)
  have 3: "Env (podContainers pod0 ! 0) ! 0 = \<lparr>EnvName = ''HOME'', EnvValue = ''/tekton/home''\<rparr>"
    "Env (podContainers pod0 ! 0) ! 1 = \<lparr>EnvName = ''HOME'', EnvValue = ''/root''\<rparr>"
    by (simp_all add: pod0_containers podStepA_def)
  show ?thesis using 1 2 3 by simp
qed

text \<open>
  Claim C10. The hermetic block changes the steps only when the execution mode
  annotation of the task run is \<open>hermetic\<close> and the alpha fields are enabled: then it
  appends TEKTON_HERMETIC=1 to the variables of every step, and otherwise it returns the
  steps as they are. In the pod a successful \<open>Build\<close> returns, the variables of a step
  are the implicit variables and the step's own, followed by that one variable exactly
  when both conditions hold.
\<close>

theorem hermetic_env_needs_annotation_and_alpha:
  assumes "Build_prepare d b ctx tr ts = Inr l0"
    and "Build d b ctx tr ts = (tr', Inr pod)"
    and "i < length (stepContainers l0)"
  shows "addHermeticEnvVar d ctx tr containers =
           (if annotationOf tr ExecutionModeAnnotation = ''hermetic'' \<and>
               EnableAPIFields ctx = AlphaAPIFields d
            then map (\<lambda>s. s\<lparr>Env := Env s @ [\<lparr>EnvName = ''TEKTON_HERMETIC'', EnvValue = ''1''\<rparr>]\<rparr>)
                   containers
            else containers) \<and>
         Env (podContainers pod ! i) =
           (implicitEnvVars l0 @ Env (stepContainers l0 ! i)) @
           (if annotationOf tr ExecutionModeAnnotation = ''hermetic'' \<and>
               EnableAPIFields ctx = AlphaAPIFields d
            then [\<lparr>EnvName = ''TEKTON_HERMETIC'', EnvValue = ''1''\<rparr>] else [])"
  using Build_step_Env[OF assms]
  by (simp add: addHermeticEnvVar_def hermeticEnv_def alphaAPIEnabled_def
      ExecutionModeHermetic_def TektonHermeticEnvVar_def)

theorem hermetic_env_needs_annotation_and_alpha_witness:
  "Build_prepare deps0 builder0 ctx0 taskRun0 taskSpec0 = Inr locals0 \<and>
   Build deps0 builder0 ctx0 taskRun0 taskSpec0 =
     (taskRun0\<lparr>trAnnotations := Some annotations0\<rparr>, Inr pod0) \<and>
   (1::nat) < length (stepContainers locals0) \<and>
   annotationOf taskRun0 ExecutionModeAnnotation = ''hermetic'' \<and>
   EnableAPIFields ctx0 = AlphaAPIFields deps0 \<and>
   Env (stepContainers locals0 ! 1) = [] \<and>
   Env (podContainers pod0 ! 1) =
     [\<lparr>EnvName = ''HOME'', EnvValue = ''/tekton/home''\<rparr>,
      \<lparr>EnvName = ''TEKTON_HERMETIC'', EnvValue = ''1''\<rparr>] \<and>
   addHermeticEnvVar deps0 (ctx0\<lparr>EnableAPIFields := ''stable''\<rparr>) taskRun0
     [podStepA, podStepB] = [podStepA, podStepB]"
proof -
  have i: "(1::nat) < length (stepContainers locals0)"
    by (simp add: locals0_steps)
  have c: "annotationOf taskRun0 ExecutionModeAnnotation = ''hermetic''"
    "EnableAPIFields ctx0 = AlphaAPIFields deps0"
    by (simp_all add: annotationOf_def taskRun0_def ctx0_def deps0_def constants)
  have u: "Env (stepContainers locals0 ! 1) = []"
    "implicitEnvVars locals0 = [\<lparr>EnvName = ''HOME'', EnvValue = ''/tekton/home''\<rparr>]"
    by (simp_all add: locals0_steps stepB_def Container.truncate_def locals0_def)
  have s: "addHermeticEnvVar deps0 (ctx0\<lparr>EnableAPIFields := ''stable''\<rparr>) taskRun0
             [podStepA, podStepB] = [podStepA, podStepB]"
    by (simp add: addHermeticEnvVar_def alphaAPIEnabled_def deps0_def)
  show ?thesis
    using prepare0 build0 i c u s
      hermetic_env_needs_annotation_and_alpha[OF prepare0 build0 i, of "[]"]
    by simp
qed

section \<open>Volume mounts of steps and sidecars\<close>






subsection \<open>The concrete run with no credentials staging\<close>







section \<open>\<open>Build\<close> writes into its task run\<close>

text \<open>
  Claim C8 fails on the code. \<open>Build\<close> assigns the release annotation to the map that
  is the task run's own annotations: after the concrete run the task run holds an
  annotation it did not have, and on a task run whose annotations are nil the assignment
  panics. (The labels, next to it, are copied into a fresh map by \<open>makeLabels\<close>.)
\<close>

theorem Build_mutates_taskRun_annotations:
  "fst (Build deps0 builder0 ctx0 taskRun0 taskSpec0) =
     taskRun0\<lparr>trAnnotations := Some annotations0\<rparr> \<and>
   annotationOf taskRun0 ReleaseAnnotation = [] \<and>
   annotationOf (fst (Build deps0 builder0 ctx0 taskRun0 taskSpec0)) ReleaseAnnotation =
     ''v0.30.0'' \<and>
   fst (Build deps0 builder0 ctx0 taskRun0 taskSpec0) \<noteq> taskRun0 \<and>
   snd (Build deps0 builder0 ctx0 (taskRun0\<lparr>trAnnotations := None\<rparr>) taskSpec0) =
     Inl NilMapAssignment"
proof -
  have 1: "fst (Build deps0 builder0 ctx0 taskRun0 taskSpec0) =
             taskRun0\<lparr>trAnnotations := Some annotations0\<rparr>"
    by (simp add: build0)
  have 2: "annotationOf taskRun0 ReleaseAnnotation = []"
    by (simp add: annotationOf_def taskRun0_def constants)
  have 3: "annotationOf (taskRun0\<lparr>trAnnotations := Some annotations0\<rparr>) ReleaseAnnotation =
             ''v0.30.0''"
    by (simp add: annotationOf_def annotations0_def)
  have 4: "taskRun0\<lparr>trAnnotations := Some annotations0\<rparr> \<noteq> taskRun0"
  proof
    assume "taskRun0\<lparr>trAnnotations := Some annotations0\<rparr> = taskRun0"
    then have "annotationOf (taskRun0\<lparr>trAnnotations := Some annotations0\<rparr>) ReleaseAnnotation =
               annotationOf taskRun0 ReleaseAnnotation"
      by simp
    with 2 3 show False by simp
  qed
  have p: "Build_prepare deps0 builder0 ctx0 (taskRun0\<lparr>trAnnotations := None\<rparr>) taskSpec0 =
             Inr locals0"
    by (simp add: Build_prepare_def deps0_def builder0_def ctx0_def taskRun0_def taskSpec0_def
        locals0_def alphaAPIEnabled_def constants stepA_def stepB_def sidecar0_def
        Container.truncate_def)
  have s: "\<exists>l. Build_steps deps0 ctx0 (taskRun0\<lparr>trAnnotations := None\<rparr>) locals0 = Inr l"
    by (simp add: Build_steps_def floor0 taskRun0_def Let_def)
  have q: "snd (Build_pod deps0 ctx0 (taskRun0\<lparr>trAnnotations := None\<rparr>) taskSpec0 l) =
             Inl NilMapAssignment" for l
    by (simp add: Build_pod_def Let_def deps0_def)
  have 5: "snd (Build deps0 builder0 ctx0 (taskRun0\<lparr>trAnnotations := None\<rparr>) taskSpec0) =
             Inl NilMapAssignment"
    using s q by (auto simp: Build_def p)
  show ?thesis using 1 2 3 4 5 by simp
qed

end
